theory Spec2Isabelle
  imports Main "HOL-Library.AList" "HOL-Library.Sublist" "HOL-Library.Multiset"
begin

section \<open>JavaScript values used by the rule engine and the logger\<close>

text \<open>
  A JavaScript string is a sequence of UTF-16 code units. The model reads a \<^typ>\<open>char\<close>
  as the code unit with the same number, so it covers the strings whose code units are
  below 256 (Latin-1); header names, methods and the fixed tables of the program are
  ASCII. An optional property (\<open>value?: string\<close>) is an \<^typ>\<open>string option\<close>, with
  \<open>None\<close> for \<open>undefined\<close>.
\<close>

definition toLowerCase_char :: "char \<Rightarrow> char" where
  "toLowerCase_char c =
     (let n = (of_char c :: nat)
      in if (65 \<le> n \<and> n \<le> 90) \<or> (192 \<le> n \<and> n \<le> 222 \<and> n \<noteq> 215)
         then char_of (n + 32) else c)"

definition toLowerCase :: "string \<Rightarrow> string" where
  "toLowerCase s = map toLowerCase_char s"

definition startsWith :: "string \<Rightarrow> string \<Rightarrow> bool" where
  "startsWith s p = prefix p s"

text \<open>\<open>ToBoolean\<close> of a \<open>string | undefined\<close>: \<open>undefined\<close> and the empty string are falsy.\<close>

definition truthy :: "string option \<Rightarrow> bool" where
  "truthy v = (case v of None \<Rightarrow> False | Some s \<Rightarrow> s \<noteq> [])"

text \<open>\<open>v || ''\<close> on a \<open>string | undefined\<close>.\<close>

definition or_empty :: "string option \<Rightarrow> string" where
  "or_empty v = (case v of None \<Rightarrow> [] | Some s \<Rightarrow> s)"

text \<open>A \<open>string | undefined\<close> inside a template literal: \<open>undefined\<close> prints as its name.\<close>

definition template :: "string option \<Rightarrow> string" where
  "template v = (case v of None \<Rightarrow> ''undefined'' | Some s \<Rightarrow> s)"

text \<open>\<open>String(n)\<close> of an integer.\<close>

definition digit_char :: "nat \<Rightarrow> char" where
  "digit_char d = char_of (48 + d)"

fun show_nat :: "nat \<Rightarrow> string" where
  "show_nat n = (if n < 10 then [digit_char n] else show_nat (n div 10) @ [digit_char (n mod 10)])"

definition show_int :: "int \<Rightarrow> string" where
  "show_int i = (if i < 0 then CHR ''-'' # show_nat (nat (- i)) else show_nat (nat i))"

text \<open>\<open>parseInt(ds)\<close> of a run of digits.\<close>

definition is_digit :: "char \<Rightarrow> bool" where
  "is_digit c = (c \<in> set ''0123456789'')"

definition parseInt :: "string \<Rightarrow> nat" where
  "parseInt ds = foldl (\<lambda>n c. 10 * n + (of_char c - 48)) 0 ds"

text \<open>
  A property name that is an array index: the canonical decimal of a number below
  \<open>2^32 - 1\<close>.
\<close>

definition array_index :: "string \<Rightarrow> nat option" where
  "array_index k =
     (if k \<noteq> [] \<and> list_all is_digit k \<and> show_nat (parseInt k) = k
         \<and> int (parseInt k) < 4294967295
      then Some (parseInt k)
      else None)"

text \<open>The byte length of the UTF-8 encoding, \<open>new TextEncoder().encode(s).length\<close>.\<close>

definition utf8_length :: "string \<Rightarrow> nat" where
  "utf8_length s = sum_list (map (\<lambda>c. if (of_char c :: nat) < 128 then 1 else 2) s)"

text \<open>\<open>s.split(c)\<close> with a one-character separator: never the empty list.\<close>

fun split :: "char \<Rightarrow> string \<Rightarrow> string list" where
  "split sep [] = [[]]"
| "split sep (c # cs) =
     (if c = sep then [] # split sep cs
      else (case split sep cs of [] \<Rightarrow> [[c]] | p # ps \<Rightarrow> (c # p) # ps))"

text \<open>
  Parsed JSON. Objects keep their members as an association list; the value of a
  jsonPath modification (\<open>value: any\<close>, stored with the rule) is such a value too.
  Numbers are the integers: the program never computes with a number of the body, and a
  fraction would be one more primitive value.
\<close>

datatype json =
    JNull
  | JBool bool
  | JNum int
  | JStr string
  | JArr "json list"
  | JObj "(string \<times> json) list"

text \<open>\<open>string | ArrayBuffer\<close>: the buffer is its bytes.\<close>

datatype data = Str string | Buf "char list"

section \<open>The platform\<close>

text \<open>
  What the program takes from the JavaScript engine rather than from this repository:
  regular expressions, the URL parser, the JSON codec, and the properties an object
  inherits from its prototype. They are the fields of a record that every function of
  the model takes as its first argument; a theorem that holds for every such record holds
  for the engine the program runs on. A constructor that throws returns \<open>Inl\<close> with the
  \<open>message\<close> of the error.

  \<^item> \<open>RegExp_new src\<close> is \<open>new RegExp(src)\<close>; \<open>RegExp_test r s\<close> is \<open>r.test(s)\<close> and
    \<open>String_replace s r t\<close> is \<open>s.replace(r, t)\<close>, for a regular expression without the
    \<open>g\<close> and \<open>y\<close> flags (with them \<open>test\<close> depends on the calls before it).
  \<^item> \<open>URL_new s\<close> is \<open>new URL(s)\<close>: \<open>Some message\<close> when it throws.
  \<^item> \<open>inherited k p\<close> is the value a receiver of kind \<open>k\<close> finds for the property \<open>p\<close> in
    its prototype chain when it has no own property of that name; such a value is not
    part of any parsed JSON text and stays opaque (\<open>'h\<close>). \<open>inherited_setter k p\<close> tells
    whether that property is an accessor with a setter, which takes an assignment to
    \<open>p\<close> instead of the receiver. \<open>host_get\<close>, \<open>host_set\<close>, \<open>host_truthy\<close> and
    \<open>host_to_string\<close> read a property of an inherited value, assign one (in strict mode:
    \<open>Some message\<close> when the assignment throws), give its \<open>ToBoolean\<close> and its
    \<open>ToString\<close>.
  \<^item> \<open>ToArrayLength v\<close> is the length that \<open>a.length = v\<close> gives an array, \<open>None\<close> when
    the assignment throws a \<open>RangeError\<close>.
  \<^item> \<open>Error_message\<close> is the message of the \<open>TypeError\<close> or \<open>RangeError\<close> the engine
    throws for a property access it refuses.
  \<^item> \<open>Date_days_back t n\<close> is the time value of a \<open>Date\<close> \<open>d\<close> with the time value \<open>t\<close>
    after \<open>d.setDate(d.getDate() - n)\<close>, \<open>None\<close> when \<open>d\<close> has become an invalid date.
    \<open>setDate\<close> counts days of the local calendar, so the result depends on the time
    zone of the engine: it is \<open>t - n * 86400000\<close> unless the local clock is changed in
    between (daylight saving time) or the date leaves the range of a \<open>Date\<close>.
\<close>

datatype kind = KObject | KArray | KString | KNumber | KBoolean

datatype access_error =
    CannotRead json string
  | CannotReadUndefined string
  | CannotSet json string
  | CannotSetUndefined string
  | InvalidArrayLength json

record ('r, 'h) platform =
  RegExp_new :: "string \<Rightarrow> string + 'r"
  RegExp_test :: "'r \<Rightarrow> string \<Rightarrow> bool"
  String_replace :: "string \<Rightarrow> 'r \<Rightarrow> string \<Rightarrow> string"
  URL_new :: "string \<Rightarrow> string option"
  JSON_parse :: "string \<Rightarrow> string + json"
  JSON_stringify :: "json \<Rightarrow> string"
  TextDecoder_decode :: "char list \<Rightarrow> string"
  inherited :: "kind \<Rightarrow> string \<Rightarrow> 'h option"
  inherited_setter :: "kind \<Rightarrow> string \<Rightarrow> bool"
  host_get :: "'h \<Rightarrow> string \<Rightarrow> string + 'h option"
  host_set :: "'h \<Rightarrow> string \<Rightarrow> json \<Rightarrow> string option"
  host_truthy :: "'h \<Rightarrow> bool"
  host_to_string :: "'h \<Rightarrow> string"
  ToArrayLength :: "json \<Rightarrow> nat option"
  Error_message :: "access_error \<Rightarrow> string"
  Date_days_back :: "int \<Rightarrow> int \<Rightarrow> int option"

text \<open>
  An ordinary object is the list of its own properties in the order in which
  \<open>Object.entries\<close>, \<open>JSON.stringify\<close> and a spread go through them: the names that are
  array indices first, by number, then the other names in the order of their creation.
  A new property takes its place in that order.
\<close>

definition entries_order :: "string list \<Rightarrow> bool" where
  "entries_order ks =
     sorted_wrt (\<lambda>k k'. case array_index k' of
                           None \<Rightarrow> True
                         | Some j \<Rightarrow> (case array_index k of Some i \<Rightarrow> i < j | None \<Rightarrow> False)) ks"

definition listed_before :: "nat \<Rightarrow> string \<times> 'v \<Rightarrow> bool" where
  "listed_before i e = (case array_index (fst e) of Some j \<Rightarrow> j < i | None \<Rightarrow> False)"

definition add_property :: "(string \<times> 'v) list \<Rightarrow> string \<Rightarrow> 'v \<Rightarrow> (string \<times> 'v) list" where
  "add_property ms key v =
     (case array_index key of
        None \<Rightarrow> ms @ [(key, v)]
      | Some i \<Rightarrow> takeWhile (listed_before i) ms @ [(key, v)] @ dropWhile (listed_before i) ms)"

text \<open>
  \<open>o[key] = v\<close> on an ordinary object \<open>o\<close>: an own property is replaced in place;
  without one, an inherited accessor with a setter (\<open>__proto__\<close> of \<open>Object.prototype\<close>)
  takes the value and \<open>o\<close> gets no property; otherwise \<open>o\<close> gets a new own property.
\<close>

definition assign_property ::
  "('r, 'h) platform \<Rightarrow> (string \<times> 'v) list \<Rightarrow> string \<Rightarrow> 'v \<Rightarrow> (string \<times> 'v) list" where
  "assign_property P ms key v =
     (case map_of ms key of
        Some c \<Rightarrow> AList.update key v ms
      | None \<Rightarrow> if inherited_setter P KObject key then ms else add_property ms key v)"

section \<open>Data model (types/index.ts)\<close>

datatype operation = SetHeader | RemoveHeader | AppendHeader

record HeaderOperation =
  operation :: operation
  header :: string
  value' :: "string option"

datatype target = Request | Response

datatype contentType = Json | Text | Binary

datatype modification =
    JsonPath string json
  | Replace data

text \<open>
  \<open>RuleAction\<close>, the union tagged by \<open>type\<close>:
  \<open>ModifyHeaders requestHeaders responseHeaders\<close>,
  \<open>Redirect destination regexSubstitution\<close>,
  \<open>ModifyBody target contentType modification\<close> and
  \<open>MockResponse statusCode headers body\<close>.
\<close>

datatype action =
    ModifyHeaders "HeaderOperation list option" "HeaderOperation list option"
  | Redirect string "string option"
  | ModifyBody target contentType modification
  | MockResponse int "(string \<times> string) list" string

text \<open>\<open>urlPattern: string | RegExp\<close>.\<close>

datatype 'r pattern = Wildcard string | Regex 'r

record 'r Rule =
  rule_id :: string
  name :: string
  enabled :: bool
  priority :: int
  urlPattern :: "'r pattern"
  action :: action
  createdAt :: int
  modifiedAt :: int

text \<open>
  A \<open>Record<string, string>\<close> is the list of its own properties, each name once, in
  the order of \<open>Object.entries\<close>; a property is assigned with
  \<^const>\<open>assign_property\<close> and deleted with \<^const>\<open>AList.delete\<close>. A record can have an
  own property of any name, \<open>__proto__\<close> too (one that \<open>JSON.parse\<close> or a spread has
  made).
\<close>

type_synonym headers = "(string \<times> string) list"

text \<open>\<open>RequestInfo\<close> and \<open>ModifiedRequest\<close> of rules/RuleEngine.ts.\<close>

record RequestInfo =
  url :: string
  method' :: string
  headers :: headers
  body :: "data option"

record ModifiedRequest = RequestInfo +
  modifications :: "string list"

text \<open>\<open>RequestInfo\<close> and \<open>ResponseInfo\<close> of logger/Logger.ts; a \<open>Date\<close> is its time value.\<close>

record LoggedRequest =
  req_url :: string
  req_method :: string
  req_headers :: headers
  req_timestamp :: int

record ResponseInfo =
  res_statusCode :: int
  res_headers :: headers

record LogEntry =
  entry_id :: string
  timestamp :: int
  entry_url :: string
  entry_method :: string
  statusCode :: "int option"
  requestHeaders :: headers
  responseHeaders :: "headers option"
  appliedRules :: "string list"
  entry_modifications :: "string list"

record LogFilter =
  filter_urlPattern :: "string option"
  filter_method :: "string option"
  filter_statusCode :: "int option"
  hasModifications :: "bool option"
  dateRange :: "(int \<times> int) option"

section \<open>RuleEngine (rules/RuleEngine.ts)\<close>

definition SECURITY_RESTRICTED_HEADERS :: "string list" where
  "SECURITY_RESTRICTED_HEADERS =
     [''host'', ''connection'', ''content-length'', ''cookie'', ''cookie2'', ''set-cookie'',
      ''set-cookie2'', ''origin'', ''referer'', ''user-agent'', ''proxy-authorization'',
      ''proxy-connection'', ''te'', ''trailer'', ''transfer-encoding'', ''upgrade'', ''via'']"

subsection \<open>evaluateRule\<close>

text \<open>
  \<open>pattern.replace(/[.+?^${}()|[\]\\]/g, '\\$&')\<close>: every character of the class gets a
  backslash in front. Then \<open>.replace(/\*/g, '.*')\<close>.
\<close>

definition regex_special :: "char list" where
  "regex_special = ''.+?^${}()|[]'' @ [CHR 0x5C]"

definition escape_special :: "string \<Rightarrow> string" where
  "escape_special s = concat (map (\<lambda>c. if c \<in> set regex_special then [CHR 0x5C, c] else [c]) s)"

definition star_to_dotstar :: "string \<Rightarrow> string" where
  "star_to_dotstar s = concat (map (\<lambda>c. if c = CHR ''*'' then ''.*'' else [c]) s)"

definition matchesURLPattern ::
  "('r, 'h) platform \<Rightarrow> 'r pattern \<Rightarrow> string \<Rightarrow> string + bool" where
  "matchesURLPattern P pat u =
     (case pat of
        Regex r \<Rightarrow> Inr (RegExp_test P r u)
      | Wildcard s \<Rightarrow>
          (let regexPattern = star_to_dotstar (escape_special s)
           in case RegExp_new P (''^'' @ regexPattern @ ''$'') of
                Inl m \<Rightarrow> Inl m
              | Inr regex \<Rightarrow> Inr (RegExp_test P regex u)))"

definition evaluateRule ::
  "('r, 'h) platform \<Rightarrow> 'r Rule \<Rightarrow> RequestInfo \<Rightarrow> string + bool" where
  "evaluateRule P rule request =
     (if \<not> enabled rule then Inr False
      else matchesURLPattern P (urlPattern rule) (url request))"

subsection \<open>applyHeaderModifications\<close>

text \<open>
  \<open>modified.headers[name]\<close> reads an own property or, when there is none, what the
  object inherits from \<open>Object.prototype\<close>.
\<close>

datatype 'h property = Own string | Inherited 'h | Missing

definition header_get :: "('r, 'h) platform \<Rightarrow> headers \<Rightarrow> string \<Rightarrow> 'h property" where
  "header_get P hs k =
     (case map_of hs k of
        Some v \<Rightarrow> Own v
      | None \<Rightarrow> (case inherited P KObject k of Some h \<Rightarrow> Inherited h | None \<Rightarrow> Missing))"

definition restricted :: "HeaderOperation \<Rightarrow> bool" where
  "restricted op = (toLowerCase (header op) \<in> set SECURITY_RESTRICTED_HEADERS)"

text \<open>
  The body of the loop for an operation that is not skipped: the \<open>switch\<close>. \<open>append\<close>
  reads the header (own or inherited), and both of its branches end in an assignment
  to \<open>modified.headers[op.header]\<close>.
\<close>

definition apply_operation ::
  "('r, 'h) platform \<Rightarrow> HeaderOperation \<Rightarrow> ModifiedRequest \<Rightarrow> ModifiedRequest" where
  "apply_operation P op modified =
     (case operation op of
        SetHeader \<Rightarrow>
          modified\<lparr>headers :=
                     assign_property P (headers modified) (header op) (or_empty (value' op)),
                   modifications := modifications modified @
                     [''Set header: '' @ header op @ '' = '' @ template (value' op)]\<rparr>
      | RemoveHeader \<Rightarrow>
          modified\<lparr>headers := AList.delete (header op) (headers modified),
                   modifications := modifications modified @ [''Removed header: '' @ header op]\<rparr>
      | AppendHeader \<Rightarrow>
          (let new =
             (case header_get P (headers modified) (header op) of
                Own v \<Rightarrow> if v \<noteq> [] then v @ '', '' @ template (value' op)
                         else or_empty (value' op)
              | Inherited h \<Rightarrow> if host_truthy P h
                         then host_to_string P h @ '', '' @ template (value' op)
                         else or_empty (value' op)
              | Missing \<Rightarrow> or_empty (value' op))
           in modified\<lparr>headers := assign_property P (headers modified) (header op) new,
                       modifications := modifications modified @
                         [''Appended header: '' @ header op @ '' += '' @ template (value' op)]\<rparr>))"

fun header_loop ::
  "('r, 'h) platform \<Rightarrow> HeaderOperation list \<Rightarrow> ModifiedRequest \<Rightarrow> ModifiedRequest" where
  "header_loop P [] modified = modified"
| "header_loop P (op # ops) modified =
     (if restricted op
      then header_loop P ops
             (modified\<lparr>modifications := modifications modified @
                 [''Skipped restricted header: '' @ header op]\<rparr>)
      else header_loop P ops (apply_operation P op modified))"

definition applyHeaderModifications ::
  "('r, 'h) platform \<Rightarrow> HeaderOperation list option \<Rightarrow> HeaderOperation list option \<Rightarrow>
     ModifiedRequest \<Rightarrow> ModifiedRequest" where
  "applyHeaderModifications P requestHeaders' responseHeaders' modified =
     (let operations = (case requestHeaders' of None \<Rightarrow> [] | Some ops \<Rightarrow> ops)
      in header_loop P operations modified)"

subsection \<open>applyURLRedirection\<close>

text \<open>
  The \<open>try\<close> block computes \<open>newURL\<close> and validates it; \<open>new RegExp\<close> and \<open>new URL\<close> are
  the two calls that can throw, both before \<open>modified\<close> is touched. The \<open>catch\<close> block
  records the message; it also prints an \<open>ExtensionError\<close> on the console, which changes
  nothing in the request that is returned.
\<close>

definition newURL ::
  "('r, 'h) platform \<Rightarrow> string \<Rightarrow> string option \<Rightarrow> string \<Rightarrow> string + string" where
  "newURL P destination regexSubstitution original_url =
     (if truthy regexSubstitution
      then (case RegExp_new P destination of
              Inl m \<Rightarrow> Inl m
            | Inr regex \<Rightarrow>
                Inr (String_replace P original_url regex (or_empty regexSubstitution)))
      else Inr destination)"

definition applyURLRedirection ::
  "('r, 'h) platform \<Rightarrow> string \<Rightarrow> string option \<Rightarrow> ModifiedRequest \<Rightarrow> RequestInfo \<Rightarrow>
     ModifiedRequest" where
  "applyURLRedirection P destination regexSubstitution modified originalRequest =
     (let attempt =
        (case newURL P destination regexSubstitution (url originalRequest) of
           Inl m \<Rightarrow> Inl m
         | Inr u \<Rightarrow> (case URL_new P u of Some m \<Rightarrow> Inl m | None \<Rightarrow> Inr u))
      in case attempt of
           Inr u \<Rightarrow>
             modified\<lparr>url := u,
                      modifications := modifications modified @ [''Redirected to: '' @ u]\<rparr>
         | Inl message \<Rightarrow>
             modified\<lparr>modifications := modifications modified @
                        [''Error: Invalid URL redirection - '' @ message]\<rparr>)"

subsection \<open>applyJSONPath\<close>

text \<open>
  \<open>part.match(/^(.+)\[(\d+)\]$/)\<close>: the part ends in \<open>[digits]\<close> and something that has no
  line terminator stands before the bracket. The digits are the whole run before the
  closing bracket, since the character before the run has to be the opening bracket.
\<close>

definition line_terminator :: "char \<Rightarrow> bool" where
  "line_terminator c = (c = CHR 0x0A \<or> c = CHR 0x0D)"

definition arrayMatch :: "string \<Rightarrow> (string \<times> string) option" where
  "arrayMatch part =
     (case rev part of
        [] \<Rightarrow> None
      | c # r \<Rightarrow>
          if c \<noteq> CHR '']'' then None
          else (case dropWhile is_digit r of
                  [] \<Rightarrow> None
                | b # k \<Rightarrow>
                    if b = CHR ''['' \<and> takeWhile is_digit r \<noteq> [] \<and> k \<noteq> []
                       \<and> list_all (\<lambda>x. \<not> line_terminator x) k
                    then Some (rev k, rev (takeWhile is_digit r))
                    else None))"

text \<open>
  The property name \<open>String(parseInt(index))\<close> under which \<open>current[key][n]\<close> looks the
  number up (exact for the indices an array can have, below \<open>2^32 - 1\<close>).
\<close>

definition index_name :: "string \<Rightarrow> string" where
  "index_name index = show_nat (parseInt index)"

text \<open>
  The variable \<open>current\<close> of the loop. It starts at the parsed body and follows one
  property per step, so it is a value inside the parsed tree together with the way back
  to the root (the containers passed and the name taken in each, innermost first), or a
  value that is not part of the tree: a primitive computed on the way (a length, a
  character of a string), a value found in a prototype, or \<open>undefined\<close>.
\<close>

datatype 'h cursor =
    At "(json \<times> string) list" json
  | Detached json
  | Host 'h
  | Undefined

definition inherited_property :: "('r, 'h) platform \<Rightarrow> kind \<Rightarrow> string \<Rightarrow> 'h cursor" where
  "inherited_property P k key = (case inherited P k key of Some h \<Rightarrow> Host h | None \<Rightarrow> Undefined)"

text \<open>\<open>v[key]\<close> for a JSON value \<open>v\<close> reached by \<open>fs\<close>; reading a property of \<open>null\<close> throws.\<close>

definition get_property ::
  "('r, 'h) platform \<Rightarrow> (json \<times> string) list \<Rightarrow> json \<Rightarrow> string \<Rightarrow> string + 'h cursor" where
  "get_property P fs v key =
     (case v of
        JNull \<Rightarrow> Inl (Error_message P (CannotRead JNull key))
      | JObj ms \<Rightarrow>
          Inr (case map_of ms key of
                 Some c \<Rightarrow> At ((v, key) # fs) c
               | None \<Rightarrow> inherited_property P KObject key)
      | JArr xs \<Rightarrow>
          Inr (case array_index key of
                 Some i \<Rightarrow> if i < length xs then At ((v, key) # fs) (xs ! i)
                           else inherited_property P KArray key
               | None \<Rightarrow> if key = ''length'' then Detached (JNum (int (length xs)))
                         else inherited_property P KArray key)
      | JStr s \<Rightarrow>
          Inr (case array_index key of
                 Some i \<Rightarrow> if i < length s then Detached (JStr [s ! i])
                           else inherited_property P KString key
               | None \<Rightarrow> if key = ''length'' then Detached (JNum (int (length s)))
                         else inherited_property P KString key)
      | JNum n \<Rightarrow> Inr (inherited_property P KNumber key)
      | JBool b \<Rightarrow> Inr (inherited_property P KBoolean key))"

definition read_property ::
  "('r, 'h) platform \<Rightarrow> 'h cursor \<Rightarrow> string \<Rightarrow> string + 'h cursor" where
  "read_property P current key =
     (case current of
        At fs v \<Rightarrow> get_property P fs v key
      | Detached v \<Rightarrow> get_property P [] v key
      | Host h \<Rightarrow>
          (case host_get P h key of
             Inl m \<Rightarrow> Inl m
           | Inr None \<Rightarrow> Inr Undefined
           | Inr (Some h') \<Rightarrow> Inr (Host h'))
      | Undefined \<Rightarrow> Inl (Error_message P (CannotReadUndefined key)))"

text \<open>
  \<open>v[key] = value\<close> in strict mode (class bodies are strict), as the new content of \<open>v\<close>.
  An object gets or replaces an own member, unless the name is inherited as an accessor
  with a setter, which takes the value instead. An array is extended up to the index
  (\<open>JSON.stringify\<close> prints the holes as \<open>null\<close>); a name that is neither an index nor
  \<open>length\<close> becomes a property that \<open>JSON.stringify\<close> does not print. Assigning to a
  property of a primitive, or of \<open>null\<close>, throws.
\<close>

definition set_property ::
  "('r, 'h) platform \<Rightarrow> json \<Rightarrow> string \<Rightarrow> json \<Rightarrow> string + json" where
  "set_property P v key new =
     (case v of
        JObj ms \<Rightarrow> Inr (JObj (assign_property P ms key new))
      | JArr xs \<Rightarrow>
          (case array_index key of
             Some i \<Rightarrow>
               Inr (JArr (if i < length xs then xs[i := new]
                          else xs @ replicate (i - length xs) JNull @ [new]))
           | None \<Rightarrow>
               if key = ''length''
               then (case ToArrayLength P new of
                       Some n \<Rightarrow> Inr (JArr (take n xs @ replicate (n - length xs) JNull))
                     | None \<Rightarrow> Inl (Error_message P (InvalidArrayLength new)))
               else Inr v)
      | _ \<Rightarrow> Inl (Error_message P (CannotSet v key)))"

text \<open>The parsed body after the container reached by \<open>fs\<close> has become \<open>v\<close>.\<close>

definition replace_member :: "json \<Rightarrow> string \<Rightarrow> json \<Rightarrow> json" where
  "replace_member parent key v =
     (case parent of
        JObj ms \<Rightarrow> JObj (AList.update key v ms)
      | JArr xs \<Rightarrow> (case array_index key of Some i \<Rightarrow> JArr (xs[i := v]) | None \<Rightarrow> parent)
      | _ \<Rightarrow> parent)"

fun plug :: "json \<Rightarrow> (json \<times> string) list \<Rightarrow> json" where
  "plug v [] = v"
| "plug v ((parent, key) # fs) = plug (replace_member parent key v) fs"

definition write_property ::
  "('r, 'h) platform \<Rightarrow> json \<Rightarrow> 'h cursor \<Rightarrow> string \<Rightarrow> json \<Rightarrow> string + json" where
  "write_property P obj current key new =
     (case current of
        At fs v \<Rightarrow>
          (case set_property P v key new of Inl m \<Rightarrow> Inl m | Inr v' \<Rightarrow> Inr (plug v' fs))
      | Detached v \<Rightarrow> Inl (Error_message P (CannotSet v key))
      | Host h \<Rightarrow> (case host_set P h key new of Some m \<Rightarrow> Inl m | None \<Rightarrow> Inr obj)
      | Undefined \<Rightarrow> Inl (Error_message P (CannotSetUndefined key)))"

text \<open>One iteration of \<open>for (const part of parts)\<close>, and the loop.\<close>

definition step :: "('r, 'h) platform \<Rightarrow> 'h cursor \<Rightarrow> string \<Rightarrow> string + 'h cursor" where
  "step P current part =
     (case arrayMatch part of
        Some (key, index) \<Rightarrow>
          (case read_property P current key of
             Inl m \<Rightarrow> Inl m
           | Inr c \<Rightarrow> read_property P c (index_name index))
      | None \<Rightarrow> read_property P current part)"

fun traverse :: "('r, 'h) platform \<Rightarrow> 'h cursor \<Rightarrow> string list \<Rightarrow> string + 'h cursor" where
  "traverse P current [] = Inr current"
| "traverse P current (part # parts) =
     (case step P current part of
        Inl m \<Rightarrow> Inl m
      | Inr c \<Rightarrow> traverse P c parts)"

definition applyJSONPath ::
  "('r, 'h) platform \<Rightarrow> json \<Rightarrow> string \<Rightarrow> json \<Rightarrow> string + json" where
  "applyJSONPath P obj path new =
     (let parts = split (CHR ''.'') path;
          lastPart = last parts
      in case traverse P (At [] obj) (butlast parts) of
           Inl m \<Rightarrow> Inl m
         | Inr current \<Rightarrow>
             (case arrayMatch lastPart of
                Some (key, index) \<Rightarrow>
                  (case read_property P current key of
                     Inl m \<Rightarrow> Inl m
                   | Inr c \<Rightarrow> write_property P obj c (index_name index) new)
              | None \<Rightarrow> write_property P obj current lastPart new))"

subsection \<open>applyBodyModification\<close>

text \<open>
  The three \<open>modify...Body\<close> methods run inside the \<open>try\<close> block. Every call that can
  throw (\<open>JSON.parse\<close>, \<open>applyJSONPath\<close>) comes before the first assignment to
  \<open>modified\<close>, so a thrown error (\<open>Inl\<close>) leaves \<open>modified\<close> as it was. The \<open>catch\<close> block
  records the message and prints an \<open>ExtensionError\<close> on the console.
\<close>

definition set_body ::
  "('r, 'h) platform \<Rightarrow> data \<Rightarrow> nat \<Rightarrow> string \<Rightarrow> ModifiedRequest \<Rightarrow> ModifiedRequest" where
  "set_body P content len note modified =
     modified\<lparr>body := Some content,
              headers :=
                assign_property P (headers modified) ''Content-Length'' (show_nat len),
              modifications := modifications modified @ [note]\<rparr>"

text \<open>
  \<open>JSON.stringify\<close> of an \<open>ArrayBuffer\<close> (a replacement content that is not a string is
  taken as the data itself) is \<open>{}\<close>: the buffer has no enumerable property.
\<close>

definition modifyJSONBody ::
  "('r, 'h) platform \<Rightarrow> modification \<Rightarrow> ModifiedRequest \<Rightarrow> string + ModifiedRequest" where
  "modifyJSONBody P modn modified =
     (let bodyStr = (case body modified of
                       Some (Str s) \<Rightarrow> s
                     | Some (Buf b) \<Rightarrow> TextDecoder_decode P b
                     | None \<Rightarrow> [])
      in case JSON_parse P bodyStr of
           Inl m \<Rightarrow> Inl m
         | Inr jsonData \<Rightarrow>
             (case modn of
                JsonPath path new \<Rightarrow>
                  (case applyJSONPath P jsonData path new of
                     Inl m \<Rightarrow> Inl m
                   | Inr j \<Rightarrow>
                       (let newBody = JSON_stringify P j
                        in Inr (set_body P (Str newBody) (utf8_length newBody)
                                  (''Modified JSON path: '' @ path) modified)))
              | Replace content \<Rightarrow>
                  (case content of
                     Str c \<Rightarrow>
                       (case JSON_parse P c of
                          Inl m \<Rightarrow> Inl m
                        | Inr j \<Rightarrow>
                            (let newBody = JSON_stringify P j
                             in Inr (set_body P (Str newBody) (utf8_length newBody)
                                       ''Replaced entire JSON body'' modified)))
                   | Buf b \<Rightarrow>
                       Inr (set_body P (Str ''{}'') 2 ''Replaced entire JSON body'' modified))))"

text \<open>
  \<open>content as string\<close> is a cast of the type checker only: a buffer given as text content
  is encoded through its \<open>ToString\<close>, \<open>[object ArrayBuffer]\<close>.
\<close>

definition modifyTextBody ::
  "('r, 'h) platform \<Rightarrow> modification \<Rightarrow> ModifiedRequest \<Rightarrow> ModifiedRequest" where
  "modifyTextBody P modn modified =
     (case modn of
        Replace content \<Rightarrow>
          set_body P content
            (case content of Str c \<Rightarrow> utf8_length c | Buf b \<Rightarrow> length ''[object ArrayBuffer]'')
            ''Replaced text body'' modified
      | JsonPath path new \<Rightarrow> modified)"

definition modifyBinaryBody ::
  "('r, 'h) platform \<Rightarrow> modification \<Rightarrow> ModifiedRequest \<Rightarrow> ModifiedRequest" where
  "modifyBinaryBody P modn modified =
     (case modn of
        Replace content \<Rightarrow>
          set_body P content
            (case content of Buf b \<Rightarrow> length b | Str c \<Rightarrow> utf8_length c)
            ''Replaced binary body'' modified
      | JsonPath path new \<Rightarrow> modified)"

text \<open>\<open>!modified.body\<close>: no body, or the empty string; a buffer is an object and truthy.\<close>

definition no_body :: "data option \<Rightarrow> bool" where
  "no_body b = (case b of None \<Rightarrow> True | Some (Str s) \<Rightarrow> s = [] | Some (Buf x) \<Rightarrow> False)"

definition applyBodyModification ::
  "('r, 'h) platform \<Rightarrow> target \<Rightarrow> contentType \<Rightarrow> modification \<Rightarrow> ModifiedRequest \<Rightarrow>
     ModifiedRequest" where
  "applyBodyModification P tgt ct modn modified =
     (if no_body (body modified)
      then modified\<lparr>modifications := modifications modified @ [''No body to modify'']\<rparr>
      else (case (case ct of
                    Json \<Rightarrow> modifyJSONBody P modn modified
                  | Text \<Rightarrow> Inr (modifyTextBody P modn modified)
                  | Binary \<Rightarrow> Inr (modifyBinaryBody P modn modified)) of
              Inr modified' \<Rightarrow> modified'
            | Inl message \<Rightarrow>
                modified\<lparr>modifications := modifications modified @
                           [''Error modifying body: '' @ message]\<rparr>))"

subsection \<open>applyRule\<close>

definition applyRule :: "('r, 'h) platform \<Rightarrow> 'r Rule \<Rightarrow> RequestInfo \<Rightarrow> ModifiedRequest" where
  "applyRule P rule request =
     (let modified = \<lparr>url = url request, method' = method' request, headers = headers request,
                       body = body request, modifications = []\<rparr>
      in case action rule of
           ModifyHeaders requestHeaders' responseHeaders' \<Rightarrow>
             applyHeaderModifications P requestHeaders' responseHeaders' modified
         | Redirect destination regexSubstitution \<Rightarrow>
             applyURLRedirection P destination regexSubstitution modified request
         | ModifyBody tgt ct modn \<Rightarrow> applyBodyModification P tgt ct modn modified
         | MockResponse code hs b \<Rightarrow>
             modified\<lparr>modifications := modifications modified @
                        [''Mock response: '' @ show_int code]\<rparr>)"

section \<open>Logger (logger/Logger.ts)\<close>

definition SENSITIVE_HEADERS :: "string list" where
  "SENSITIVE_HEADERS =
     [''authorization'', ''cookie'', ''set-cookie'', ''proxy-authorization'',
      ''www-authenticate'', ''x-api-key'', ''api-key'']"

text \<open>The state of a \<open>Logger\<close>: its two private fields.\<close>

record Logger =
  logs :: "LogEntry list"
  logIdCounter :: nat

subsection \<open>filterSensitiveData\<close>

text \<open>
  The loop over \<open>Object.entries(headers)\<close> builds \<open>filtered\<close> one assignment
  \<open>filtered[key] = ...\<close> at a time, starting from the empty object \<open>{}\<close>, which
  inherits from \<open>Object.prototype\<close>.
\<close>

definition filter_entry ::
  "('r, 'h) platform \<Rightarrow> headers \<Rightarrow> string \<times> string \<Rightarrow> headers" where
  "filter_entry P filtered e =
     (case e of (key, v) \<Rightarrow>
        (let lowerKey = toLowerCase key
         in if lowerKey \<in> set SENSITIVE_HEADERS
            then assign_property P filtered key ''[FILTERED]''
            else assign_property P filtered key v))"

definition filterSensitiveData :: "('r, 'h) platform \<Rightarrow> string \<Rightarrow> headers \<Rightarrow> headers" where
  "filterSensitiveData P u hs =
     (let isHTTPS = startsWith u ''https://''
      in if \<not> isHTTPS then hs else foldl (filter_entry P) [] hs)"

subsection \<open>extractModifications\<close>

definition target_name :: "target \<Rightarrow> string" where
  "target_name t = (case t of Request \<Rightarrow> ''request'' | Response \<Rightarrow> ''response'')"

text \<open>One iteration of the loop: the \<open>switch\<close> on the type of the action.\<close>

definition describe :: "'r Rule \<Rightarrow> string list \<Rightarrow> string list" where
  "describe rule mods =
     (case action rule of
        ModifyHeaders requestHeaders' responseHeaders' \<Rightarrow>
          (let mods1 = (if requestHeaders' \<noteq> None
                        then mods @ [''Modified request headers ('' @ name rule @ '')'']
                        else mods)
           in if responseHeaders' \<noteq> None
              then mods1 @ [''Modified response headers ('' @ name rule @ '')'']
              else mods1)
      | Redirect destination regexSubstitution \<Rightarrow>
          mods @ [''Redirected to '' @ destination @ '' ('' @ name rule @ '')'']
      | ModifyBody tgt ct modn \<Rightarrow>
          mods @ [''Modified '' @ target_name tgt @ '' body ('' @ name rule @ '')'']
      | MockResponse code hs b \<Rightarrow>
          mods @ [''Mocked response with status '' @ show_int code @ '' ('' @ name rule @ '')''])"

fun extract_loop :: "'r Rule list \<Rightarrow> string list \<Rightarrow> string list" where
  "extract_loop [] mods = mods"
| "extract_loop (rule # rules) mods = extract_loop rules (describe rule mods)"

definition extractModifications :: "'r Rule list \<Rightarrow> string list" where
  "extractModifications rules = extract_loop rules []"

subsection \<open>logRequest and logResponse\<close>

text \<open>\<open>Date.now()\<close> is the argument \<open>now\<close>.\<close>

definition generateLogId :: "int \<Rightarrow> Logger \<Rightarrow> string" where
  "generateLogId now L = ''log-'' @ show_int now @ ''-'' @ show_nat (logIdCounter L)"

definition logRequest ::
  "('r, 'h) platform \<Rightarrow> int \<Rightarrow> LoggedRequest \<Rightarrow> 'r Rule list \<Rightarrow> Logger \<Rightarrow> Logger" where
  "logRequest P now request rules L =
     (let logEntry =
        \<lparr>entry_id = generateLogId now L,
         timestamp = req_timestamp request,
         entry_url = req_url request,
         entry_method = req_method request,
         statusCode = None,
         requestHeaders = filterSensitiveData P (req_url request) (req_headers request),
         responseHeaders = None,
         appliedRules = map rule_id rules,
         entry_modifications = extractModifications rules\<rparr>
      in L\<lparr>logs := logs L @ [logEntry], logIdCounter := Suc (logIdCounter L)\<rparr>)"

text \<open>
  The predicate of \<open>this.logs.find\<close>: same url and method, no status code yet
  (\<open>!log.statusCode\<close>, which \<open>0\<close> satisfies too) and less than five seconds apart.
\<close>

definition awaits_response :: "LoggedRequest \<Rightarrow> LogEntry \<Rightarrow> bool" where
  "awaits_response request log =
     (entry_url log = req_url request \<and> entry_method log = req_method request \<and>
      (case statusCode log of None \<Rightarrow> True | Some c \<Rightarrow> c = 0) \<and>
      \<bar>timestamp log - req_timestamp request\<bar> < 5000)"

text \<open>The updates of the entry that \<open>find\<close> returned.\<close>

definition merge_response ::
  "('r, 'h) platform \<Rightarrow> ResponseInfo \<Rightarrow> LoggedRequest \<Rightarrow> 'r Rule list \<Rightarrow> LogEntry \<Rightarrow>
     LogEntry" where
  "merge_response P response request rules existingLog =
     (let newRuleIds = filter (\<lambda>i. i \<notin> set (appliedRules existingLog)) (map rule_id rules);
          newModifications = filter (\<lambda>m. m \<notin> set (entry_modifications existingLog))
                               (extractModifications rules)
      in existingLog\<lparr>statusCode := Some (res_statusCode response),
                     responseHeaders :=
                       Some (filterSensitiveData P (req_url request) (res_headers response)),
                     appliedRules := appliedRules existingLog @ newRuleIds,
                     entry_modifications := entry_modifications existingLog @ newModifications\<rparr>)"

fun find_index :: "('a \<Rightarrow> bool) \<Rightarrow> 'a list \<Rightarrow> nat option" where
  "find_index p [] = None"
| "find_index p (x # xs) =
     (if p x then Some 0 else (case find_index p xs of None \<Rightarrow> None | Some i \<Rightarrow> Some (Suc i)))"

definition logResponse ::
  "('r, 'h) platform \<Rightarrow> int \<Rightarrow> ResponseInfo \<Rightarrow> LoggedRequest \<Rightarrow> 'r Rule list \<Rightarrow> Logger \<Rightarrow>
     Logger" where
  "logResponse P now response request rules L =
     (case find_index (awaits_response request) (logs L) of
        Some i \<Rightarrow>
          L\<lparr>logs := (logs L)[i := merge_response P response request rules (logs L ! i)]\<rparr>
      | None \<Rightarrow>
          (let logEntry =
             \<lparr>entry_id = generateLogId now L,
              timestamp = req_timestamp request,
              entry_url = req_url request,
              entry_method = req_method request,
              statusCode = Some (res_statusCode response),
              requestHeaders = filterSensitiveData P (req_url request) (req_headers request),
              responseHeaders =
                Some (filterSensitiveData P (req_url request) (res_headers response)),
              appliedRules = map rule_id rules,
              entry_modifications = extractModifications rules\<rparr>
           in L\<lparr>logs := logs L @ [logEntry], logIdCounter := Suc (logIdCounter L)\<rparr>))"

subsection \<open>getLogs\<close>

text \<open>
  Each \<open>if\<close> narrows \<open>filteredLogs\<close>; \<open>new RegExp(filter.urlPattern)\<close> is the one call that
  can throw (the promise is then rejected with the error). \<open>Array.prototype.sort\<close> is
  stable, as \<^const>\<open>sort_key\<close> is.
\<close>

definition getLogs ::
  "('r, 'h) platform \<Rightarrow> LogFilter option \<Rightarrow> Logger \<Rightarrow> string + LogEntry list" where
  "getLogs P flt L =
     (case flt of
        None \<Rightarrow> Inr (sort_key timestamp (logs L))
      | Some f \<Rightarrow>
          (case (if truthy (filter_urlPattern f)
                 then (case RegExp_new P (or_empty (filter_urlPattern f)) of
                         Inl m \<Rightarrow> Inl m
                       | Inr pat \<Rightarrow>
                           Inr (filter (\<lambda>log. RegExp_test P pat (entry_url log)) (logs L)))
                 else Inr (logs L)) of
             Inl m \<Rightarrow> Inl m
           | Inr logs1 \<Rightarrow>
               (let logs2 = (if truthy (filter_method f)
                             then filter (\<lambda>log. entry_method log = or_empty (filter_method f)) logs1
                             else logs1);
                    logs3 = (case filter_statusCode f of
                               Some c \<Rightarrow> filter (\<lambda>log. statusCode log = Some c) logs2
                             | None \<Rightarrow> logs2);
                    logs4 = (case hasModifications f of
                               Some h \<Rightarrow>
                                 filter (\<lambda>log. if h then length (entry_modifications log) > 0
                                                else length (entry_modifications log) = 0) logs3
                             | None \<Rightarrow> logs3);
                    logs5 = (case dateRange f of
                               Some (start, end') \<Rightarrow>
                                 filter (\<lambda>log. timestamp log \<ge> start \<and> timestamp log \<le> end') logs4
                             | None \<Rightarrow> logs4)
                in Inr (sort_key timestamp logs5))))"

subsection \<open>clearLogs and applyRetentionPolicy\<close>

definition clearLogs :: "int option \<Rightarrow> Logger \<Rightarrow> Logger" where
  "clearLogs olderThan L =
     (case olderThan of
        Some d \<Rightarrow> L\<lparr>logs := filter (\<lambda>log. timestamp log \<ge> d) (logs L)\<rparr>
      | None \<Rightarrow> L\<lparr>logs := []\<rparr>)"

text \<open>
  \<open>xs.slice(start)\<close>: a negative start counts from the end, and \<open>-0\<close> is \<open>0\<close>.
\<close>

definition slice :: "int \<Rightarrow> 'a list \<Rightarrow> 'a list" where
  "slice start xs =
     (let len = int (length xs);
          k = (if start < 0 then max (len + start) 0 else min start len)
      in drop (nat k) xs)"

text \<open>
  \<open>cutoffDate.setDate(cutoffDate.getDate() - retentionDays)\<close> moves the date back by
  whole days of the local calendar; \<open>now\<close> is the time of \<open>new Date()\<close>. The time value
  of an invalid date is \<open>NaN\<close>, and \<open>log.timestamp >= cutoffDate\<close> is then false for
  every entry.
\<close>

definition cutoffDate :: "('r, 'h) platform \<Rightarrow> int \<Rightarrow> int \<Rightarrow> int option" where
  "cutoffDate P now retentionDays = Date_days_back P now retentionDays"

definition not_older :: "int option \<Rightarrow> LogEntry \<Rightarrow> bool" where
  "not_older cutoff log = (case cutoff of None \<Rightarrow> False | Some c \<Rightarrow> timestamp log \<ge> c)"

definition applyRetentionPolicy ::
  "('r, 'h) platform \<Rightarrow> int \<Rightarrow> int \<Rightarrow> int \<Rightarrow> Logger \<Rightarrow> Logger" where
  "applyRetentionPolicy P now retentionDays maxEntries L =
     (let kept = filter (not_older (cutoffDate P now retentionDays)) (logs L)
      in if int (length kept) > maxEntries
         then L\<lparr>logs := slice (- maxEntries) kept\<rparr>
         else L\<lparr>logs := kept\<rparr>)"

section \<open>A reference platform\<close>

text \<open>
  The general theorems below hold for every platform. To run the program on concrete
  requests a platform is needed; this one implements a small part of the engine and is
  used for the concrete evaluations only.

  Its regular expressions are the patterns built from literal characters, escaped
  punctuation, \<open>.\<close>, a postfix \<open>*\<close>, a leading \<open>^\<close> and a trailing \<open>$\<close>; every other
  pattern is reported as invalid, though the engine accepts many of them. Matching is
  the engine's: leftmost, and greedy with backtracking.
\<close>

datatype atom = Lit char | AnyChar

datatype token = TAtom atom | TStar | TCaret | TDollar

datatype piece = One atom | Star atom

record regex =
  from_start :: bool
  pieces :: "piece list"
  to_end :: bool

definition is_alnum :: "char \<Rightarrow> bool" where
  "is_alnum c =
     (c \<in> set ''ABCDEFGHIJKLMNOPQRSTUVWXYZabcdefghijklmnopqrstuvwxyz0123456789_'')"

definition token_of :: "char \<Rightarrow> token" where
  "token_of c =
     (if c = CHR ''.'' then TAtom AnyChar
      else if c = CHR ''*'' then TStar
      else if c = CHR ''^'' then TCaret
      else if c = CHR ''$'' then TDollar
      else TAtom (Lit c))"

fun tokens :: "string \<Rightarrow> token list option" where
  "tokens [] = Some []"
| "tokens [c] =
     (if c \<in> set ''+?{}()|[]'' \<or> c = CHR 0x5C then None else Some [token_of c])"
| "tokens (c # d # cs) =
     (if c = CHR 0x5C
      then (if is_alnum d then None else map_option ((#) (TAtom (Lit d))) (tokens cs))
      else if c \<in> set ''+?{}()|[]'' then None
      else map_option ((#) (token_of c)) (tokens (d # cs)))"

fun group_pieces :: "token list \<Rightarrow> (piece list \<times> bool) option" where
  "group_pieces [] = Some ([], False)"
| "group_pieces [TDollar] = Some ([], True)"
| "group_pieces (TAtom a # TStar # ts) =
     (case ts of
        TStar # rest \<Rightarrow> None
      | _ \<Rightarrow> map_option (\<lambda>(ps, e). (Star a # ps, e)) (group_pieces ts))"
| "group_pieces (TAtom a # ts) = map_option (\<lambda>(ps, e). (One a # ps, e)) (group_pieces ts)"
| "group_pieces ts = None"

definition reference_RegExp :: "string \<Rightarrow> string + regex" where
  "reference_RegExp src =
     (case tokens src of
        None \<Rightarrow> Inl ''Invalid regular expression''
      | Some ts \<Rightarrow>
          (case (case ts of
                   TCaret # rest \<Rightarrow> (True, group_pieces rest)
                 | _ \<Rightarrow> (False, group_pieces ts)) of
             (b, None) \<Rightarrow> Inl ''Invalid regular expression''
           | (b, Some (ps, e)) \<Rightarrow> Inr \<lparr>from_start = b, pieces = ps, to_end = e\<rparr>))"

definition accepts :: "atom \<Rightarrow> char \<Rightarrow> bool" where
  "accepts a c = (case a of Lit d \<Rightarrow> c = d | AnyChar \<Rightarrow> \<not> line_terminator c)"

text \<open>What is left of the subject after a match that starts at its first character.\<close>

fun match_here :: "piece list \<Rightarrow> bool \<Rightarrow> string \<Rightarrow> string option" where
  "match_here [] e s = (if e \<and> s \<noteq> [] then None else Some s)"
| "match_here (One a # ps) e [] = None"
| "match_here (One a # ps) e (c # cs) = (if accepts a c then match_here ps e cs else None)"
| "match_here (Star a # ps) e [] = match_here ps e []"
| "match_here (Star a # ps) e (c # cs) =
     (if accepts a c
      then (case match_here (Star a # ps) e cs of
              Some rest \<Rightarrow> Some rest
            | None \<Rightarrow> match_here ps e (c # cs))
      else match_here ps e (c # cs))"

text \<open>The first match: what stands before it, the match, and what follows.\<close>

fun search ::
  "piece list \<Rightarrow> bool \<Rightarrow> string \<Rightarrow> string \<Rightarrow> (string \<times> string \<times> string) option" where
  "search ps e pre [] =
     (case match_here ps e [] of Some rest \<Rightarrow> Some (rev pre, [], []) | None \<Rightarrow> None)"
| "search ps e pre (c # cs) =
     (case match_here ps e (c # cs) of
        Some rest \<Rightarrow> Some (rev pre, take (length (c # cs) - length rest) (c # cs), rest)
      | None \<Rightarrow> search ps e (c # pre) cs)"

definition exec :: "regex \<Rightarrow> string \<Rightarrow> (string \<times> string \<times> string) option" where
  "exec r s =
     (if from_start r
      then (case match_here (pieces r) (to_end r) s of
              Some rest \<Rightarrow> Some ([], take (length s - length rest) s, rest)
            | None \<Rightarrow> None)
      else search (pieces r) (to_end r) [] s)"

definition reference_test :: "regex \<Rightarrow> string \<Rightarrow> bool" where
  "reference_test r s = (exec r s \<noteq> None)"

text \<open>
  The replacement text of \<open>String.prototype.replace\<close>: \<open>$$\<close>, \<open>$&\<close>, the part before
  (\<open>$\<close> and a backquote) and the part after (\<open>$\<close> and a quote); without capture groups
  any other \<open>$\<close> stands for itself.
\<close>

fun expand :: "string \<Rightarrow> string \<Rightarrow> string \<Rightarrow> string \<Rightarrow> string" where
  "expand pre matched post [] = []"
| "expand pre matched post [c] = [c]"
| "expand pre matched post (c # d # cs) =
     (if c \<noteq> CHR ''$'' then c # expand pre matched post (d # cs)
      else if d = CHR ''$'' then CHR ''$'' # expand pre matched post cs
      else if d = CHR ''&'' then matched @ expand pre matched post cs
      else if d = CHR 0x60 then pre @ expand pre matched post cs
      else if d = CHR 0x27 then post @ expand pre matched post cs
      else c # expand pre matched post (d # cs))"

definition reference_replace :: "string \<Rightarrow> regex \<Rightarrow> string \<Rightarrow> string" where
  "reference_replace s r t =
     (case exec r s of
        None \<Rightarrow> s
      | Some (pre, matched, post) \<Rightarrow> pre @ expand pre matched post t @ post)"

text \<open>
  \<open>new URL(s)\<close> without a base throws for every string that does not begin with a
  scheme (a letter, then letters, digits, \<open>+\<close>, \<open>-\<close> or \<open>.\<close>, then a colon). The reference
  accepts every string that does; the engine rejects a few of them (a special scheme
  with no host), none of which is used below.
\<close>

definition is_alpha :: "char \<Rightarrow> bool" where
  "is_alpha c = (c \<in> set ''ABCDEFGHIJKLMNOPQRSTUVWXYZabcdefghijklmnopqrstuvwxyz'')"

definition has_scheme :: "string \<Rightarrow> bool" where
  "has_scheme s =
     (case s of
        [] \<Rightarrow> False
      | c # cs \<Rightarrow>
          is_alpha c \<and>
          (case dropWhile (\<lambda>x. is_alpha x \<or> is_digit x \<or> x \<in> set ''+-.'') cs of
             [] \<Rightarrow> False
           | d # ds \<Rightarrow> d = CHR '':''))"

definition reference_URL :: "string \<Rightarrow> string option" where
  "reference_URL s = (if has_scheme s then None else Some ''Invalid URL'')"

text \<open>
  \<open>JSON.stringify\<close> for members in list order and strings of printable characters;
  \<open>JSON.parse\<close> is its inverse on the documents listed.
\<close>

definition quote :: "string \<Rightarrow> string" where
  "quote s =
     [CHR 0x22] @
     concat (map (\<lambda>c. if c = CHR 0x22 \<or> c = CHR 0x5C then [CHR 0x5C, c] else [c]) s) @
     [CHR 0x22]"

fun stringify :: "json \<Rightarrow> string"
  and elements :: "json list \<Rightarrow> string"
  and members :: "(string \<times> json) list \<Rightarrow> string" where
  "stringify JNull = ''null''"
| "stringify (JBool b) = (if b then ''true'' else ''false'')"
| "stringify (JNum n) = show_int n"
| "stringify (JStr s) = quote s"
| "stringify (JArr xs) = ''['' @ elements xs @ '']''"
| "stringify (JObj ms) = ''{'' @ members ms @ ''}''"
| "elements [] = []"
| "elements (x # xs) = stringify x @ (if xs = [] then [] else '','' @ elements xs)"
| "members [] = []"
| "members ((k, v) # ms) =
     quote k @ '':'' @ stringify v @ (if ms = [] then [] else '','' @ members ms)"

definition documents :: "json list" where
  "documents =
     [JObj [],
      JObj [(''user'', JObj [(''name'', JStr ''Ann'')])],
      JObj [(''items'', JArr [JObj [(''id'', JNum 1)]])]]"

definition reference_parse :: "string \<Rightarrow> string + json" where
  "reference_parse s =
     (case find (\<lambda>j. stringify j = s) documents of
        Some j \<Rightarrow> Inr j
      | None \<Rightarrow> Inl ''Unexpected token'')"

text \<open>
  The values every object inherits: its prototype (through the accessor \<open>__proto__\<close>),
  its constructor and the methods of \<open>Object.prototype\<close>. Only the members named here
  are listed.
\<close>

datatype builtin = Prototype kind | Constructor kind | Method string

definition Object_prototype_methods :: "string list" where
  "Object_prototype_methods =
     [''hasOwnProperty'', ''isPrototypeOf'', ''propertyIsEnumerable'', ''toLocaleString'',
      ''toString'', ''valueOf'', ''__defineGetter__'', ''__defineSetter__'',
      ''__lookupGetter__'', ''__lookupSetter__'']"

definition reference_inherited :: "kind \<Rightarrow> string \<Rightarrow> builtin option" where
  "reference_inherited k p =
     (if p = ''__proto__'' then Some (Prototype k)
      else if p = ''constructor'' then Some (Constructor k)
      else if p \<in> set Object_prototype_methods then Some (Method p)
      else None)"

definition reference_host_get :: "builtin \<Rightarrow> string \<Rightarrow> string + builtin option" where
  "reference_host_get h p =
     (case h of
        Prototype k \<Rightarrow>
          Inr (if p = ''constructor'' then Some (Constructor k)
               else if p \<in> set Object_prototype_methods then Some (Method p)
               else None)
      | Constructor k \<Rightarrow> Inr (if p = ''prototype'' then Some (Prototype k) else None)
      | Method m \<Rightarrow> Inr None)"

text \<open>A prototype and a function are extensible; the \<open>name\<close>, \<open>length\<close> and \<open>prototype\<close> of a
  function are read-only.\<close>

definition reference_host_set :: "builtin \<Rightarrow> string \<Rightarrow> json \<Rightarrow> string option" where
  "reference_host_set h p v =
     (case h of
        Prototype k \<Rightarrow> None
      | _ \<Rightarrow> if p \<in> set [''name'', ''length'', ''prototype'']
             then Some (''Cannot assign to read only property '' @ p)
             else None)"

definition kind_name :: "kind \<Rightarrow> string" where
  "kind_name k =
     (case k of KObject \<Rightarrow> ''Object'' | KArray \<Rightarrow> ''Array'' | KString \<Rightarrow> ''String''
      | KNumber \<Rightarrow> ''Number'' | KBoolean \<Rightarrow> ''Boolean'')"

definition reference_to_string :: "builtin \<Rightarrow> string" where
  "reference_to_string h =
     (case h of
        Prototype k \<Rightarrow>
          (case k of KObject \<Rightarrow> ''[object Object]'' | KArray \<Rightarrow> [] | KString \<Rightarrow> []
           | KNumber \<Rightarrow> ''0'' | KBoolean \<Rightarrow> ''false'')
      | Constructor k \<Rightarrow> ''function '' @ kind_name k @ ''() { [native code] }''
      | Method m \<Rightarrow> ''function '' @ m @ ''() { [native code] }'')"

definition reference_length :: "json \<Rightarrow> nat option" where
  "reference_length v =
     (case v of
        JNum n \<Rightarrow> if 0 \<le> n then Some (nat n) else None
      | JNull \<Rightarrow> Some 0
      | JBool b \<Rightarrow> Some (if b then 1 else 0)
      | _ \<Rightarrow> None)"

definition quoted :: "string \<Rightarrow> string" where
  "quoted s = [CHR 0x27] @ s @ [CHR 0x27]"

definition reference_message :: "access_error \<Rightarrow> string" where
  "reference_message e =
     (case e of
        CannotRead v key \<Rightarrow> ''Cannot read properties of null (reading '' @ quoted key @ '')''
      | CannotReadUndefined key \<Rightarrow>
          ''Cannot read properties of undefined (reading '' @ quoted key @ '')''
      | CannotSet v key \<Rightarrow>
          (case v of
             JNull \<Rightarrow> ''Cannot set properties of null (setting '' @ quoted key @ '')''
           | _ \<Rightarrow> ''Cannot create property '' @ quoted key)
      | CannotSetUndefined key \<Rightarrow>
          ''Cannot set properties of undefined (setting '' @ quoted key @ '')''
      | InvalidArrayLength v \<Rightarrow> ''Invalid array length'')"

text \<open>
  Dates in a time zone whose clock is never changed (UTC): a day is 86400000 ms, and a
  \<open>Date\<close> holds the times up to 8640000000000000 ms either side of the epoch.
\<close>

definition reference_days_back :: "int \<Rightarrow> int \<Rightarrow> int option" where
  "reference_days_back t n =
     (let t' = t - n * 86400000
      in if \<bar>t'\<bar> \<le> 8640000000000000 then Some t' else None)"

definition reference :: "(regex, builtin) platform" where
  "reference =
     \<lparr>RegExp_new = reference_RegExp,
      RegExp_test = reference_test,
      String_replace = reference_replace,
      URL_new = reference_URL,
      JSON_parse = reference_parse,
      JSON_stringify = stringify,
      TextDecoder_decode = (\<lambda>bytes. bytes),
      inherited = reference_inherited,
      inherited_setter = (\<lambda>k p. p = ''__proto__''),
      host_get = reference_host_get,
      host_set = reference_host_set,
      host_truthy = (\<lambda>h. True),
      host_to_string = reference_to_string,
      ToArrayLength = reference_length,
      Error_message = reference_message,
      Date_days_back = reference_days_back\<rparr>"

section \<open>What the specification says, in its own words\<close>

text \<open>
  The regular expression the specification describes for a wildcard pattern, in one
  pass: each \<open>*\<close> becomes \<open>.*\<close> and every other syntax character of the regular
  expression grammar (\<open>^ $ \ . * + ? ( ) [ ] { } |\<close>) is escaped.
\<close>

definition syntax_characters :: "char list" where
  "syntax_characters = ''^$'' @ [CHR 0x5C] @ ''.*+?()[]{}|''"

definition wildcard_source :: "string \<Rightarrow> string" where
  "wildcard_source s =
     concat (map (\<lambda>c. if c = CHR ''*'' then ''.*''
                       else if c \<in> set syntax_characters then [CHR 0x5C, c]
                       else [c]) s)"




text \<open>
  The candidate URL of a redirection as the specification words it: the replacement
  when \<open>regexSubstitution\<close> is present, the destination otherwise.
\<close>

definition candidate_as_claimed ::
  "('r, 'h) platform \<Rightarrow> string \<Rightarrow> string option \<Rightarrow> string \<Rightarrow> string + string" where
  "candidate_as_claimed P destination regexSubstitution original =
     (case regexSubstitution of
        None \<Rightarrow> Inr destination
      | Some t \<Rightarrow>
          (case RegExp_new P destination of
             Inl m \<Rightarrow> Inl m
           | Inr regex \<Rightarrow> Inr (String_replace P original regex t)))"

text \<open>
  The candidate with "present" read as the program reads it: an empty
  \<open>regexSubstitution\<close> counts as absent.
\<close>

definition candidate ::
  "('r, 'h) platform \<Rightarrow> string \<Rightarrow> string option \<Rightarrow> string \<Rightarrow> string + string" where
  "candidate P destination regexSubstitution original =
     (case regexSubstitution of
        None \<Rightarrow> Inr destination
      | Some t \<Rightarrow>
          if t = [] then Inr destination
          else (case RegExp_new P destination of
                  Inl m \<Rightarrow> Inl m
                | Inr regex \<Rightarrow> Inr (String_replace P original regex t)))"

text \<open>
  The descriptive strings of one applied rule: one for each clause of its action that is
  present, whether or not the list it holds is empty.
\<close>

definition clauses :: "'r Rule \<Rightarrow> string list" where
  "clauses rule =
     (case action rule of
        ModifyHeaders requestHeaders' responseHeaders' \<Rightarrow>
          (case requestHeaders' of
             None \<Rightarrow> []
           | Some ops \<Rightarrow> [''Modified request headers ('' @ name rule @ '')'']) @
          (case responseHeaders' of
             None \<Rightarrow> []
           | Some ops \<Rightarrow> [''Modified response headers ('' @ name rule @ '')''])
      | Redirect destination regexSubstitution \<Rightarrow>
          [''Redirected to '' @ destination @ '' ('' @ name rule @ '')'']
      | ModifyBody tgt ct modn \<Rightarrow>
          [''Modified '' @ (case tgt of Request \<Rightarrow> ''request'' | Response \<Rightarrow> ''response'') @
           '' body ('' @ name rule @ '')'']
      | MockResponse code hs b \<Rightarrow>
          [''Mocked response with status '' @ show_int code @ '' ('' @ name rule @ '')''])"

text \<open>
  Redaction as the specification words it: for a URL that starts with \<open>https://\<close> the
  value of each header with a sensitive name is replaced by the marker and every other
  header is kept; otherwise the headers are kept as they are.
\<close>

definition sensitive_names :: "string set" where
  "sensitive_names =
     {''authorization'', ''cookie'', ''set-cookie'', ''proxy-authorization'',
      ''www-authenticate'', ''x-api-key'', ''api-key''}"

definition redacted :: "string \<Rightarrow> headers \<Rightarrow> headers" where
  "redacted u hs =
     (if startsWith u ''https://''
      then map (\<lambda>(k, v). (k, if toLowerCase k \<in> sensitive_names then ''[FILTERED]'' else v)) hs
      else hs)"

text \<open>
  The entries a filter asks for, as the specification words it: every supplied field
  constrains the entry, an absent one does not.
\<close>

definition satisfies_all_supplied :: "('r, 'h) platform \<Rightarrow> LogFilter \<Rightarrow> LogEntry \<Rightarrow> bool" where
  "satisfies_all_supplied P f log =
     ((case filter_urlPattern f of
         None \<Rightarrow> True
       | Some p \<Rightarrow> (case RegExp_new P p of
                      Inl m \<Rightarrow> False
                    | Inr pat \<Rightarrow> RegExp_test P pat (entry_url log)))
      \<and> (case filter_method f of None \<Rightarrow> True | Some m \<Rightarrow> entry_method log = m)
      \<and> (case filter_statusCode f of None \<Rightarrow> True | Some c \<Rightarrow> statusCode log = Some c)
      \<and> (case hasModifications f of
            None \<Rightarrow> True
          | Some h \<Rightarrow> h = (entry_modifications log \<noteq> []))
      \<and> (case dateRange f of
            None \<Rightarrow> True
          | Some (start, end') \<Rightarrow> start \<le> timestamp log \<and> timestamp log \<le> end'))"

text \<open>
  The same with a supplied field read as the program reads it: a \<open>urlPattern\<close> or a
  \<open>method\<close> that is the empty string constrains nothing. \<open>compiles\<close> says that the
  \<open>urlPattern\<close>, when it is not empty, is a regular expression the engine accepts.
\<close>

definition selected :: "('r, 'h) platform \<Rightarrow> LogFilter \<Rightarrow> LogEntry \<Rightarrow> bool" where
  "selected P f log =
     ((case filter_urlPattern f of
         None \<Rightarrow> True
       | Some p \<Rightarrow> p = [] \<or> (case RegExp_new P p of
                               Inl m \<Rightarrow> False
                             | Inr pat \<Rightarrow> RegExp_test P pat (entry_url log)))
      \<and> (case filter_method f of None \<Rightarrow> True | Some m \<Rightarrow> m = [] \<or> entry_method log = m)
      \<and> (case filter_statusCode f of None \<Rightarrow> True | Some c \<Rightarrow> statusCode log = Some c)
      \<and> (case hasModifications f of
            None \<Rightarrow> True
          | Some h \<Rightarrow> h = (entry_modifications log \<noteq> []))
      \<and> (case dateRange f of
            None \<Rightarrow> True
          | Some (start, end') \<Rightarrow> start \<le> timestamp log \<and> timestamp log \<le> end'))"

definition compiles :: "('r, 'h) platform \<Rightarrow> LogFilter \<Rightarrow> bool" where
  "compiles P f =
     (case filter_urlPattern f of
        None \<Rightarrow> True
      | Some p \<Rightarrow> p = [] \<or> (case RegExp_new P p of Inl m \<Rightarrow> False | Inr pat \<Rightarrow> True))"

text \<open>
  The retention policy as the specification words it: drop the entries older than the
  cutoff, sort what is left by timestamp, and keep the \<open>maxEntries\<close> most recent.
\<close>

definition retained_as_specified :: "int \<Rightarrow> int \<Rightarrow> int \<Rightarrow> LogEntry list \<Rightarrow> LogEntry list" where
  "retained_as_specified now retentionDays maxEntries entries =
     (let kept = filter (\<lambda>log. \<not> timestamp log < now - retentionDays * 86400000) entries;
          ordered = sort_key timestamp kept
      in if int (length ordered) > maxEntries
         then drop (length ordered - nat maxEntries) ordered
         else ordered)"

section \<open>Concrete inputs\<close>

definition example_rule :: "action \<Rightarrow> regex Rule" where
  "example_rule a =
     \<lparr>rule_id = ''rule-1'', name = ''Example'', enabled = True, priority = 10,
      urlPattern = Wildcard ''https://api.example.com/*'', action = a,
      createdAt = 0, modifiedAt = 0\<rparr>"

definition example_request :: RequestInfo where
  "example_request =
     \<lparr>url = ''https://api.example.com/foo'', method' = ''POST'',
      headers = [(''Accept'', ''*/*'')], body = Some (Str ''{}'')\<rparr>"


definition example_logged :: "string \<Rightarrow> LoggedRequest" where
  "example_logged u =
     \<lparr>req_url = u, req_method = ''GET'',
      req_headers = [(''Authorization'', ''secret''), (''Accept'', ''*/*''), (''X-API-Key'', ''k1'')],
      req_timestamp = 1700000000000\<rparr>"

text \<open>A request whose header record has an own property named \<open>__proto__\<close>.\<close>

definition proto_logged :: LoggedRequest where
  "proto_logged =
     \<lparr>req_url = ''https://api.example.com/foo'', req_method = ''GET'',
      req_headers = [(''__proto__'', ''x''), (''Authorization'', ''secret''), (''A'', ''1'')],
      req_timestamp = 1000\<rparr>"

definition example_response :: ResponseInfo where
  "example_response =
     \<lparr>res_statusCode = 200,
      res_headers = [(''Set-Cookie'', ''sid=1''), (''Content-Type'', ''text/html'')]\<rparr>"

definition empty_logger :: Logger where
  "empty_logger = \<lparr>logs = [], logIdCounter = 0\<rparr>"

definition example_entry :: "string \<Rightarrow> string \<Rightarrow> int \<Rightarrow> LogEntry" where
  "example_entry u m t =
     \<lparr>entry_id = ''log-1-0'', timestamp = t, entry_url = u, entry_method = m,
      statusCode = None, requestHeaders = [], responseHeaders = None, appliedRules = [],
      entry_modifications = []\<rparr>"

definition no_filter :: LogFilter where
  "no_filter =
     \<lparr>filter_urlPattern = None, filter_method = None, filter_statusCode = None,
      hasModifications = None, dateRange = None\<rparr>"

definition two_entries :: Logger where
  "two_entries =
     \<lparr>logs = [example_entry ''https://recent.example/'' ''GET'' 999999000,
              example_entry ''https://older.example/'' ''GET'' 900000000],
      logIdCounter = 2\<rparr>"

definition user_document :: string where
  "user_document = stringify (JObj [(''user'', JObj [(''name'', JStr ''Ann'')])])"

section \<open>evaluateRule\<close>

lemma star_to_dotstar_append:
  "star_to_dotstar (xs @ ys) = star_to_dotstar xs @ star_to_dotstar ys"
  by (simp add: star_to_dotstar_def)

text \<open>
  The two \<open>replace\<close> calls of \<open>matchesURLPattern\<close> compute the pattern of the
  specification: the first inserts backslashes only, the second touches stars only.
\<close>

lemma two_passes_are_one: "star_to_dotstar (escape_special s) = wildcard_source s"
proof (induction s)
  case Nil
  then show ?case by (simp add: star_to_dotstar_def escape_special_def wildcard_source_def)
next
  case (Cons c s)
  have tail: "star_to_dotstar (escape_special s) = wildcard_source s" by (rule Cons.IH)
  have split_off: "escape_special (c # s) =
      (if c \<in> set regex_special then [CHR 0x5C, c] else [c]) @ escape_special s"
    by (simp add: escape_special_def)
  have head: "star_to_dotstar (if c \<in> set regex_special then [CHR 0x5C, c] else [c]) =
      (if c = CHR ''*'' then ''.*''
       else if c \<in> set syntax_characters then [CHR 0x5C, c] else [c])"
    by (auto simp: star_to_dotstar_def regex_special_def syntax_characters_def)
  show ?case
    unfolding split_off star_to_dotstar_append head tail
    by (simp add: wildcard_source_def)
qed

text \<open>
  C7. \<open>evaluateRule\<close> is false for a disabled rule whatever the URL. For an enabled rule
  with a compiled regular expression it is the result of testing that expression on the
  URL of the request; for a string pattern it is the result of testing, on the URL, the
  expression compiled from \<open>^\<close>, the pattern with every syntax character but \<open>*\<close> escaped
  and every \<open>*\<close> replaced by \<open>.*\<close>, and \<open>$\<close>.
\<close>

theorem C7_evaluateRule:
  "evaluateRule P rule request =
     (if \<not> enabled rule then Inr False
      else (case urlPattern rule of
              Regex r \<Rightarrow> Inr (RegExp_test P r (url request))
            | Wildcard s \<Rightarrow>
                (case RegExp_new P (''^'' @ wildcard_source s @ ''$'') of
                   Inl m \<Rightarrow> Inl m
                 | Inr regex \<Rightarrow> Inr (RegExp_test P regex (url request)))))"
  by (simp add: evaluateRule_def matchesURLPattern_def two_passes_are_one split: pattern.splits)

theorem C7_evaluateRule_witness:
  "evaluateRule reference (example_rule (Redirect ''https://b.example/'' None)) example_request
     = Inr True
   \<and> evaluateRule reference
       ((example_rule (Redirect ''https://b.example/'' None))\<lparr>enabled := False\<rparr>)
       example_request = Inr False"
proof -
  have compiled: "RegExp_new reference (''^'' @ wildcard_source ''https://api.example.com/*'' @ ''$'')
      = Inr \<lparr>from_start = True,
             pieces = map (\<lambda>c. One (Lit c)) ''https://api.example.com/'' @ [Star AnyChar],
             to_end = True\<rparr>"
    by code_simp
  have tested: "RegExp_test reference
      \<lparr>from_start = True,
       pieces = map (\<lambda>c. One (Lit c)) ''https://api.example.com/'' @ [Star AnyChar],
       to_end = True\<rparr> ''https://api.example.com/foo''"
    by code_simp
  show ?thesis
    using compiled tested
    by (simp add: C7_evaluateRule example_rule_def example_request_def)
qed

section \<open>applyHeaderModifications\<close>





text \<open>An operation that is not skipped records one entry, and not a skip entry.\<close>

lemma apply_operation_trace:
  "\<exists>entry. modifications (apply_operation P op modified) = modifications modified @ [entry]
      \<and> entry \<noteq> ''Skipped restricted header: '' @ n"
  by (cases "operation op") (simp_all add: apply_operation_def Let_def)


lemma header_loop_length:
  "length (modifications (header_loop P ops modified)) = length (modifications modified) + length ops"
proof (induction ops arbitrary: modified)
  case Nil
  then show ?case by simp
next
  case (Cons op ops)
  obtain entry where "modifications (apply_operation P op modified) = modifications modified @ [entry]"
    using apply_operation_trace by blast
  then show ?case by (simp add: Cons.IH)
qed




text \<open>
  C10. \<open>applyRule\<close> on a header modification processes \<open>requestHeaders\<close> only: its
  result is the same whatever \<open>responseHeaders\<close> holds, and the modifications have one
  entry for each operation of \<open>requestHeaders\<close> and no other, so the operations listed
  under \<open>responseHeaders\<close> are neither applied nor recorded. When \<open>requestHeaders\<close> is
  absent the result is the request as it was, with the headers of the input and an
  empty list of modifications.
\<close>

theorem C10_requestHeaders_only:
  assumes "action rule = ModifyHeaders requestHeaders' responseHeaders'"
  shows "(\<forall>others. applyRule P (rule\<lparr>action := ModifyHeaders requestHeaders' others\<rparr>) request
                     = applyRule P rule request)
         \<and> length (modifications (applyRule P rule request))
             = length (case requestHeaders' of None \<Rightarrow> [] | Some ops \<Rightarrow> ops)
         \<and> (requestHeaders' = None \<longrightarrow>
              applyRule P rule request =
                \<lparr>url = url request, method' = method' request, headers = headers request,
                 body = body request, modifications = []\<rparr>)"
proof -
  let ?modified = "\<lparr>url = url request, method' = method' request, headers = headers request,
                    body = body request, modifications = []\<rparr>"
  have run: "applyRule P rule request
      = header_loop P (case requestHeaders' of None \<Rightarrow> [] | Some ops \<Rightarrow> ops) ?modified"
    using assms by (simp add: applyRule_def applyHeaderModifications_def)
  have same: "applyRule P (rule\<lparr>action := ModifyHeaders requestHeaders' others\<rparr>) request
      = applyRule P rule request" for others
    unfolding run by (simp add: applyRule_def applyHeaderModifications_def)
  have entries: "length (modifications (applyRule P rule request))
      = length (case requestHeaders' of None \<Rightarrow> [] | Some ops \<Rightarrow> ops)"
    unfolding run by (simp add: header_loop_length)
  have absent: "requestHeaders' = None \<longrightarrow> applyRule P rule request = ?modified"
    unfolding run by simp
  show ?thesis using same entries absent by blast
qed

theorem C10_requestHeaders_only_witness:
  "applyRule reference
     (example_rule (ModifyHeaders
        (Some [\<lparr>operation = SetHeader, header = ''X-Test'', value' = Some ''v''\<rparr>])
        (Some [\<lparr>operation = SetHeader, header = ''X-Frame-Options'', value' = Some ''DENY''\<rparr>,
               \<lparr>operation = RemoveHeader, header = ''Accept'', value' = None\<rparr>])))
     example_request =
   \<lparr>url = ''https://api.example.com/foo'', method' = ''POST'',
    headers = [(''Accept'', ''*/*''), (''X-Test'', ''v'')], body = Some (Str ''{}''),
    modifications = [''Set header: X-Test = v'']\<rparr>
   \<and> applyRule reference
     (example_rule (ModifyHeaders None
        (Some [\<lparr>operation = SetHeader, header = ''X-Frame-Options'', value' = Some ''DENY''\<rparr>,
               \<lparr>operation = RemoveHeader, header = ''Accept'', value' = None\<rparr>])))
     example_request =
   \<lparr>url = ''https://api.example.com/foo'', method' = ''POST'',
    headers = [(''Accept'', ''*/*'')], body = Some (Str ''{}''), modifications = []\<rparr>"
proof -
  let ?response = "Some [\<lparr>operation = SetHeader, header = ''X-Frame-Options'', value' = Some ''DENY''\<rparr>,
                        \<lparr>operation = RemoveHeader, header = ''Accept'', value' = None\<rparr>]"
  let ?request = "Some [\<lparr>operation = SetHeader, header = ''X-Test'', value' = Some ''v''\<rparr>]"
  have both: "action (example_rule (ModifyHeaders ?request ?response))
      = ModifyHeaders ?request ?response"
    by (simp add: example_rule_def)
  have response_only: "action (example_rule (ModifyHeaders None ?response))
      = ModifyHeaders None ?response"
    by (simp add: example_rule_def)
  have without: "(example_rule (ModifyHeaders ?request ?response))
        \<lparr>action := ModifyHeaders ?request None\<rparr>
      = example_rule (ModifyHeaders ?request None)"
    by (simp add: example_rule_def)
  have alone: "applyRule reference (example_rule (ModifyHeaders ?request None)) example_request
      = \<lparr>url = ''https://api.example.com/foo'', method' = ''POST'',
         headers = [(''Accept'', ''*/*''), (''X-Test'', ''v'')], body = Some (Str ''{}''),
         modifications = [''Set header: X-Test = v'']\<rparr>"
    by code_simp
  have "applyRule reference (example_rule (ModifyHeaders ?request ?response)) example_request
      = applyRule reference (example_rule (ModifyHeaders ?request None)) example_request"
    using C10_requestHeaders_only [OF both, of reference example_request] without by metis
  moreover have "applyRule reference (example_rule (ModifyHeaders None ?response)) example_request
      = \<lparr>url = ''https://api.example.com/foo'', method' = ''POST'',
         headers = [(''Accept'', ''*/*'')], body = Some (Str ''{}''), modifications = []\<rparr>"
    using C10_requestHeaders_only [OF response_only, of reference example_request]
    by (simp add: example_request_def)
  ultimately show ?thesis unfolding alone by simp
qed

section \<open>applyURLRedirection\<close>

text \<open>
  C5, as stated, fails for a \<open>regexSubstitution\<close> that is present and empty: the
  candidate of the specification (the first match replaced by nothing, \<open>/foo\<close>) is not an
  absolute URL, yet the program redirects to the destination and records no error.
\<close>

theorem C5_empty_substitution_counterexample:
  "candidate_as_claimed reference ''https://api.example.com'' (Some '''') (url example_request)
     = Inr ''/foo''
   \<and> URL_new reference ''/foo'' = Some ''Invalid URL''
   \<and> url (applyRule reference (example_rule (Redirect ''https://api.example.com'' (Some '''')))
        example_request) = ''https://api.example.com''
   \<and> modifications (applyRule reference
        (example_rule (Redirect ''https://api.example.com'' (Some ''''))) example_request)
     = [''Redirected to: https://api.example.com'']"
  by code_simp

text \<open>
  C5, amended. When the candidate URL (the first match of the destination, read as a
  regular expression, replaced by \<open>regexSubstitution\<close> in the original URL if
  \<open>regexSubstitution\<close> is present and not empty, the destination itself otherwise) does
  not parse as an absolute URL, \<open>applyRule\<close> returns the original URL and records
  \<open>Error: Invalid URL redirection -\<close> followed by the message. \<open>applyRule\<close> is a total
  function into \<open>ModifiedRequest\<close>: no error leaves it.
\<close>

theorem C5_invalid_redirect:
  assumes "action rule = Redirect destination regexSubstitution"
    and "candidate P destination regexSubstitution (url request) = Inr c"
    and "URL_new P c = Some message"
  shows "url (applyRule P rule request) = url request
         \<and> modifications (applyRule P rule request) = [''Error: Invalid URL redirection - '' @ message]"
proof -
  have "newURL P destination regexSubstitution (url request)
      = candidate P destination regexSubstitution (url request)"
    by (cases regexSubstitution)
       (simp_all add: newURL_def candidate_def truthy_def or_empty_def split: sum.splits)
  then show ?thesis
    using assms by (simp add: applyRule_def applyURLRedirection_def)
qed

theorem C5_invalid_redirect_witness:
  "url (applyRule reference (example_rule (Redirect ''not a url'' None)) example_request)
     = ''https://api.example.com/foo''
   \<and> modifications (applyRule reference (example_rule (Redirect ''not a url'' None)) example_request)
     = [''Error: Invalid URL redirection - Invalid URL'']
   \<and> url (applyRule reference (example_rule (Redirect ''https://api.example.com'' (Some ''staging'')))
        example_request) = ''https://api.example.com/foo''
   \<and> modifications (applyRule reference
        (example_rule (Redirect ''https://api.example.com'' (Some ''staging''))) example_request)
     = [''Error: Invalid URL redirection - Invalid URL'']"
proof -
  have a1: "action (example_rule (Redirect ''not a url'' None)) = Redirect ''not a url'' None"
    by (simp add: example_rule_def)
  have c1: "candidate reference ''not a url'' None (url example_request) = Inr ''not a url''"
    by (simp add: candidate_def)
  have u1: "URL_new reference ''not a url'' = Some ''Invalid URL''"
    by code_simp
  have a2: "action (example_rule (Redirect ''https://api.example.com'' (Some ''staging'')))
      = Redirect ''https://api.example.com'' (Some ''staging'')"
    by (simp add: example_rule_def)
  have c2: "candidate reference ''https://api.example.com'' (Some ''staging'') (url example_request)
      = Inr ''staging/foo''"
    by code_simp
  have u2: "URL_new reference ''staging/foo'' = Some ''Invalid URL''"
    by code_simp
  have orig: "url example_request = ''https://api.example.com/foo''"
    by (simp add: example_request_def)
  show ?thesis
    using C5_invalid_redirect [OF a1 c1 u1] C5_invalid_redirect [OF a2 c2 u2]
    unfolding orig by simp
qed

text \<open>
  C8. A redirection leaves the method and the body as they were, whether the URL is
  replaced or kept: for \<open>applyURLRedirection\<close> on any request, and for \<open>applyRule\<close> on a
  rule whose action is a redirection.
\<close>

theorem C8_redirect_frame:
  "method' (applyURLRedirection P destination regexSubstitution modified originalRequest)
     = method' modified
   \<and> body (applyURLRedirection P destination regexSubstitution modified originalRequest)
     = body modified
   \<and> (action rule = Redirect destination regexSubstitution \<longrightarrow>
        method' (applyRule P rule request) = method' request \<and>
        body (applyRule P rule request) = body request)"
  by (simp add: applyRule_def applyURLRedirection_def split: sum.splits option.splits)

theorem C8_redirect_frame_witness:
  "method' (applyRule reference (example_rule (Redirect ''https://b.example/'' None)) example_request)
     = ''POST''
   \<and> body (applyRule reference (example_rule (Redirect ''https://b.example/'' None)) example_request)
     = Some (Str ''{}'')
   \<and> method' (applyRule reference (example_rule (Redirect ''not a url'' None)) example_request)
     = ''POST''
   \<and> body (applyRule reference (example_rule (Redirect ''not a url'' None)) example_request)
     = Some (Str ''{}'')"
  using C8_redirect_frame [of reference "''https://b.example/''" None _ _
      "example_rule (Redirect ''https://b.example/'' None)" example_request]
    C8_redirect_frame [of reference "''not a url''" None _ _
      "example_rule (Redirect ''not a url'' None)" example_request]
  by (simp add: example_rule_def example_request_def)

section \<open>applyJSONPath\<close>

text \<open>
  C6. The path \<open>constructor.polluted\<close> on the body \<open>{}\<close> has the intermediate segment
  \<open>constructor\<close>, which the parsed body (the object without members) does not have.
  The write is not refused: \<open>current[part]\<close> finds the constructor that every object
  inherits, the value is assigned to a property of that function, and the request comes
  back with the entry \<open>Modified JSON path\<close>, a recomputed \<open>Content-Length\<close> and no error
  entry.
\<close>

theorem C6_inherited_segment:
  "applyRule reference
     (example_rule (ModifyBody Request Json (JsonPath ''constructor.polluted'' (JBool True))))
     (example_request\<lparr>headers := []\<rparr>)
   = \<lparr>url = ''https://api.example.com/foo'', method' = ''POST'',
      headers = [(''Content-Length'', ''2'')], body = Some (Str ''{}''),
      modifications = [''Modified JSON path: constructor.polluted'']\<rparr>
   \<and> JSON_parse reference ''{}'' = Inr (JObj [])
   \<and> map_of [] ''constructor'' = (None :: json option)"
  by code_simp

text \<open>
  Where the segments before the last lead to \<open>undefined\<close> (the value reached has no such
  member and inherits none), the write does fail: the next read, or the final
  assignment, throws.
\<close>

lemma traverse_append:
  "traverse P c (ps @ qs) = (case traverse P c ps of Inl m \<Rightarrow> Inl m | Inr c' \<Rightarrow> traverse P c' qs)"
  by (induction ps arbitrary: c) (auto split: sum.splits)

lemma step_Undefined: "\<exists>m. step P Undefined part = Inl m"
  by (simp add: step_def read_property_def split: option.splits prod.splits)

lemma traverse_Undefined: "qs \<noteq> [] \<Longrightarrow> \<exists>m. traverse P Undefined qs = Inl m"
  using step_Undefined [of P "hd qs"] by (cases qs) auto

lemma last_write_Undefined:
  "\<exists>m. (case arrayMatch lastPart of
          Some (key, index) \<Rightarrow>
            (case read_property P Undefined key of
               Inl m \<Rightarrow> Inl m
             | Inr c \<Rightarrow> write_property P obj c (index_name index) new)
        | None \<Rightarrow> write_property P obj Undefined lastPart new) = Inl m"
  by (simp add: read_property_def write_property_def split: option.splits prod.splits)

lemma applyJSONPath_undefined:
  assumes "butlast (split (CHR ''.'') path) = ps @ qs"
    and "traverse P (At [] obj) ps = Inr Undefined"
  shows "\<exists>m. applyJSONPath P obj path new = Inl m"
proof (cases "qs = []")
  case True
  then have "traverse P (At [] obj) (butlast (split (CHR ''.'') path)) = Inr Undefined"
    using assms by simp
  then show ?thesis
    using last_write_Undefined [where lastPart = "last (split (CHR ''.'') path)" and P = P
        and obj = obj and new = new]
    by (auto simp: applyJSONPath_def Let_def)
next
  case False
  then obtain m where "traverse P Undefined qs = Inl m"
    using traverse_Undefined by blast
  then have "traverse P (At [] obj) (butlast (split (CHR ''.'') path)) = Inl m"
    using assms by (simp add: traverse_append)
  then show ?thesis by (simp add: applyJSONPath_def Let_def)
qed

text \<open>
  A JSON path whose segments before the last reach \<open>undefined\<close> at some point makes
  \<open>applyBodyModification\<close> return the request with its body and headers as they were and
  with one more entry, \<open>Error modifying body:\<close> followed by a message.
\<close>

theorem missing_segment_fails:
  assumes "body modified = Some (Str b)" and "b \<noteq> []"
    and "JSON_parse P b = Inr obj"
    and "butlast (split (CHR ''.'') path) = ps @ qs"
    and "traverse P (At [] obj) ps = Inr Undefined"
  shows "\<exists>message. applyBodyModification P tgt Json (JsonPath path new) modified
           = modified\<lparr>modifications := modifications modified @
                        [''Error modifying body: '' @ message]\<rparr>"
proof -
  obtain m where "applyJSONPath P obj path new = Inl m"
    using applyJSONPath_undefined [OF assms(4,5)] by blast
  then have "modifyJSONBody P (JsonPath path new) modified = Inl m"
    using assms(1,3) by (simp add: modifyJSONBody_def)
  then have "applyBodyModification P tgt Json (JsonPath path new) modified
      = modified\<lparr>modifications := modifications modified @ [''Error modifying body: '' @ m]\<rparr>"
    using assms(1,2) by (simp add: applyBodyModification_def no_body_def)
  then show ?thesis by (rule exI)
qed

theorem missing_segment_fails_witness:
  "applyBodyModification reference Request Json (JsonPath ''profile.address.city'' (JStr ''Oslo''))
     \<lparr>url = ''https://api.example.com/foo'', method' = ''POST'',
      headers = [(''Content-Length'', ''23'')], body = Some (Str user_document),
      modifications = []\<rparr>
   = \<lparr>url = ''https://api.example.com/foo'', method' = ''POST'',
      headers = [(''Content-Length'', ''23'')], body = Some (Str user_document),
      modifications =
        [''Error modifying body: Cannot read properties of undefined (reading '' @
         quoted ''address'' @ '')'']\<rparr>"
proof -
  let ?modified = "\<lparr>url = ''https://api.example.com/foo'', method' = ''POST'',
      headers = [(''Content-Length'', ''23'')], body = Some (Str user_document),
      modifications = []\<rparr>"
  have b: "body ?modified = Some (Str user_document)" by simp
  have ne: "user_document \<noteq> []" by code_simp
  have parsed: "JSON_parse reference user_document
      = Inr (JObj [(''user'', JObj [(''name'', JStr ''Ann'')])])"
    by code_simp
  have parts: "butlast (split (CHR ''.'') ''profile.address.city'') = [''profile''] @ [''address'']"
    by code_simp
  have gone: "traverse reference (At [] (JObj [(''user'', JObj [(''name'', JStr ''Ann'')])]))
      [''profile''] = Inr Undefined"
    by code_simp
  obtain message where m: "applyBodyModification reference Request Json
        (JsonPath ''profile.address.city'' (JStr ''Oslo'')) ?modified
      = ?modified\<lparr>modifications := modifications ?modified @
          [''Error modifying body: '' @ message]\<rparr>"
    using missing_segment_fails [OF b ne parsed parts gone] by blast
  have run: "modifications (applyBodyModification reference Request Json
        (JsonPath ''profile.address.city'' (JStr ''Oslo'')) ?modified)
      = [''Error modifying body: Cannot read properties of undefined (reading '' @
         quoted ''address'' @ '')'']"
    by code_simp
  have "''Error modifying body: '' @ message
      = ''Error modifying body: Cannot read properties of undefined (reading '' @
         quoted ''address'' @ '')''"
    using run unfolding m by simp
  then show ?thesis unfolding m by simp
qed

section \<open>extractModifications\<close>

lemma describe_append: "describe rule mods = mods @ describe rule []"
  by (simp add: describe_def Let_def split: action.splits)

lemma describe_clauses: "describe rule [] = clauses rule"
  by (simp add: describe_def clauses_def target_name_def Let_def
      split: action.splits option.splits target.splits)

lemma extract_loop_concat:
  "extract_loop rules mods = mods @ concat (map clauses rules)"
proof (induction rules arbitrary: mods)
  case Nil
  then show ?case by simp
next
  case (Cons rule rules)
  have "extract_loop (rule # rules) mods = extract_loop rules (mods @ clauses rule)"
    using describe_append [of rule mods] by (simp add: describe_clauses)
  then show ?case by (simp add: Cons.IH)
qed

text \<open>
  C9. The modifications of the entry that \<open>logRequest\<close> adds are, in the order of the
  applied rules, the descriptive strings of each rule: for a \<open>modifyHeaders\<close> rule one
  string for \<open>requestHeaders\<close> when that field is present and one for \<open>responseHeaders\<close>
  when that field is present, an empty list counting as present; exactly one string for
  every other rule.
\<close>

theorem C9_modifications_per_clause:
  "entry_modifications (last (logs (logRequest P now request rules L)))
     = concat (map clauses rules)
   \<and> (\<forall>rule \<in> set rules.
        length (clauses rule) =
          (case action rule of
             ModifyHeaders requestHeaders' responseHeaders' \<Rightarrow>
               (if requestHeaders' = None then 0 else 1) + (if responseHeaders' = None then 0 else 1)
           | _ \<Rightarrow> 1))"
  by (auto simp: logRequest_def extractModifications_def extract_loop_concat clauses_def
      split: action.splits option.splits)

theorem C9_modifications_per_clause_witness:
  "entry_modifications
     (last (logs (logRequest reference 1700000000500
        (example_logged ''https://api.example.com/foo'')
        [example_rule (ModifyHeaders (Some []) None),
         example_rule (Redirect ''https://b.example/'' None),
         example_rule (ModifyHeaders (Some []) (Some []))] empty_logger)))
   = [''Modified request headers (Example)'', ''Redirected to https://b.example/ (Example)'',
      ''Modified request headers (Example)'', ''Modified response headers (Example)'']"
  using C9_modifications_per_clause [of reference 1700000000500
      "example_logged ''https://api.example.com/foo''"
      "[example_rule (ModifyHeaders (Some []) None),
        example_rule (Redirect ''https://b.example/'' None),
        example_rule (ModifyHeaders (Some []) (Some []))]" empty_logger]
  by (simp add: clauses_def example_rule_def)

section \<open>filterSensitiveData\<close>

text \<open>
  C4. The claim fails on a request whose header record has an own property named
  \<open>__proto__\<close> (as \<open>JSON.parse\<close> makes one): under an \<open>https://\<close> URL the logged request
  headers lack that header, which is not sensitive and which the specification keeps
  as it is. The assignment \<open>filtered[key] = value\<close> to the fresh object goes to the
  setter that the object inherits. The sensitive header is redacted and the other
  header is kept.
\<close>

theorem C4_own_proto_header_dropped:
  "requestHeaders (last (logs (logRequest reference 1000 proto_logged
      ([] :: regex Rule list) empty_logger)))
     = [(''Authorization'', ''[FILTERED]''), (''A'', ''1'')]
   \<and> redacted (req_url proto_logged) (req_headers proto_logged)
     = [(''__proto__'', ''x''), (''Authorization'', ''[FILTERED]''), (''A'', ''1'')]"
  by code_simp

text \<open>
  Without such a name the loop is the redaction of the specification, entry by entry.
\<close>

lemma assign_fresh:
  assumes "k \<notin> fst ` set al" and "\<not> inherited_setter P KObject k"
    and "entries_order (map fst al @ [k])"
  shows "assign_property P al k v = al @ [(k, v)]"
proof -
  have none: "map_of al k = None" using assms(1) by (simp add: map_of_eq_None_iff)
  have "add_property al k v = al @ [(k, v)]"
  proof (cases "array_index k")
    case None
    then show ?thesis by (simp add: add_property_def)
  next
    case (Some i)
    have "\<forall>e \<in> set al. listed_before i e"
      using assms(3) Some by (auto simp: entries_order_def sorted_wrt_append listed_before_def)
    then have "takeWhile (listed_before i) al = al" and "dropWhile (listed_before i) al = []"
      by simp_all
    then show ?thesis using Some by (simp add: add_property_def)
  qed
  then show ?thesis using none assms(2) by (simp add: assign_property_def)
qed

lemma filter_loop_map:
  "distinct (map fst (acc @ hs)) \<Longrightarrow> \<forall>k \<in> fst ` set hs. \<not> inherited_setter P KObject k \<Longrightarrow>
   entries_order (map fst (acc @ hs)) \<Longrightarrow>
   foldl (filter_entry P) acc hs =
     acc @ map (\<lambda>(k, v). (k, if toLowerCase k \<in> sensitive_names then ''[FILTERED]'' else v)) hs"
proof (induction hs arbitrary: acc)
  case Nil
  then show ?case by simp
next
  case (Cons e hs)
  obtain k v where e: "e = (k, v)" by (cases e)
  have fresh: "k \<notin> fst ` set acc" using Cons.prems(1) by (auto simp: e)
  have plain: "\<not> inherited_setter P KObject k" using Cons.prems(2) by (simp add: e)
  have names: "set SENSITIVE_HEADERS = sensitive_names"
    by (auto simp: SENSITIVE_HEADERS_def sensitive_names_def)
  have "entries_order ((map fst acc @ [k]) @ map fst hs)"
    using Cons.prems(3) by (simp add: e)
  then have place: "entries_order (map fst acc @ [k])"
    unfolding entries_order_def sorted_wrt_append by simp
  have one: "filter_entry P acc e =
      acc @ [(k, if toLowerCase k \<in> sensitive_names then ''[FILTERED]'' else v)]"
    using fresh plain place by (simp add: filter_entry_def e names assign_fresh Let_def)
  have "distinct (map fst ((acc @ [(k, if toLowerCase k \<in> sensitive_names then ''[FILTERED]'' else v)]) @ hs))"
    using Cons.prems(1) by (simp add: e)
  moreover have "\<forall>k \<in> fst ` set hs. \<not> inherited_setter P KObject k"
    using Cons.prems(2) by simp
  moreover have "entries_order (map fst ((acc @ [(k, if toLowerCase k \<in> sensitive_names then ''[FILTERED]'' else v)]) @ hs))"
    using Cons.prems(3) by (simp add: e)
  ultimately have rest: "foldl (filter_entry P)
      (acc @ [(k, if toLowerCase k \<in> sensitive_names then ''[FILTERED]'' else v)]) hs =
      (acc @ [(k, if toLowerCase k \<in> sensitive_names then ''[FILTERED]'' else v)]) @
      map (\<lambda>(k, v). (k, if toLowerCase k \<in> sensitive_names then ''[FILTERED]'' else v)) hs"
    by (rule Cons.IH)
  have "foldl (filter_entry P) acc (e # hs) = foldl (filter_entry P) (filter_entry P acc e) hs"
    by simp
  also have "\<dots> = (acc @ [(k, if toLowerCase k \<in> sensitive_names then ''[FILTERED]'' else v)]) @
      map (\<lambda>(k, v). (k, if toLowerCase k \<in> sensitive_names then ''[FILTERED]'' else v)) hs"
    unfolding one by (rule rest)
  finally show ?case by (simp add: e)
qed

lemma filterSensitiveData_redacted:
  "distinct (map fst hs) \<Longrightarrow> \<forall>k \<in> fst ` set hs. \<not> inherited_setter P KObject k \<Longrightarrow>
   entries_order (map fst hs) \<Longrightarrow>
   filterSensitiveData P u hs = redacted u hs"
  using filter_loop_map [of "[]" hs P] by (simp add: filterSensitiveData_def redacted_def)

lemma find_index_Some: "find_index p xs = Some i \<Longrightarrow> i < length xs \<and> p (xs ! i)"
proof (induction xs arbitrary: i)
  case Nil
  then show ?case by simp
next
  case (Cons x xs)
  then show ?case by (cases "p x") (auto split: option.splits)
qed

text \<open>
  For header records (each name once, in the order of \<open>Object.entries\<close>) none of whose
  names is inherited with a setter,
  the entry that \<open>logRequest\<close> adds holds the request headers redacted: under a URL that
  starts with \<open>https://\<close> the value of every header whose lower-cased name is one of the
  seven sensitive names is \<open>[FILTERED]\<close> and every other header is kept as it is; under
  any other URL the headers are kept unchanged. \<open>logResponse\<close> stores the response
  headers redacted in the same way, in the entry it completes or in the entry it adds,
  whose request headers are redacted too.
\<close>

theorem redaction_of_plain_names:
  assumes "distinct (map fst (req_headers request))"
    and "distinct (map fst (res_headers response))"
    and "\<forall>k \<in> fst ` set (req_headers request). \<not> inherited_setter P KObject k"
    and "\<forall>k \<in> fst ` set (res_headers response). \<not> inherited_setter P KObject k"
    and "entries_order (map fst (req_headers request))"
    and "entries_order (map fst (res_headers response))"
  shows "requestHeaders (last (logs (logRequest P now request rules L)))
           = redacted (req_url request) (req_headers request)
         \<and> (case find_index (awaits_response request) (logs L) of
              Some i \<Rightarrow>
                responseHeaders (logs (logResponse P now response request rules L) ! i)
                  = Some (redacted (req_url request) (res_headers response))
            | None \<Rightarrow>
                responseHeaders (last (logs (logResponse P now response request rules L)))
                  = Some (redacted (req_url request) (res_headers response))
                \<and> requestHeaders (last (logs (logResponse P now response request rules L)))
                  = redacted (req_url request) (req_headers request))"
proof -
  have req: "filterSensitiveData P (req_url request) (req_headers request)
      = redacted (req_url request) (req_headers request)"
    using assms(1,3,5) by (rule filterSensitiveData_redacted)
  have res: "filterSensitiveData P (req_url request) (res_headers response)
      = redacted (req_url request) (res_headers response)"
    using assms(2,4,6) by (rule filterSensitiveData_redacted)
  have first: "requestHeaders (last (logs (logRequest P now request rules L)))
      = redacted (req_url request) (req_headers request)"
    by (simp add: logRequest_def req)
  have second: "case find_index (awaits_response request) (logs L) of
              Some i \<Rightarrow>
                responseHeaders (logs (logResponse P now response request rules L) ! i)
                  = Some (redacted (req_url request) (res_headers response))
            | None \<Rightarrow>
                responseHeaders (last (logs (logResponse P now response request rules L)))
                  = Some (redacted (req_url request) (res_headers response))
                \<and> requestHeaders (last (logs (logResponse P now response request rules L)))
                  = redacted (req_url request) (req_headers request)"
  proof (cases "find_index (awaits_response request) (logs L)")
    case None
    then show ?thesis by (simp add: logResponse_def req res)
  next
    case (Some i)
    then have "i < length (logs L)" using find_index_Some by fastforce
    then show ?thesis using Some by (simp add: logResponse_def merge_response_def res Let_def)
  qed
  show ?thesis using first second by simp
qed

theorem redaction_of_plain_names_witness:
  "requestHeaders (last (logs (logRequest reference 1000
      (example_logged ''https://api.example.com/foo'') ([] :: regex Rule list) empty_logger)))
     = [(''Authorization'', ''[FILTERED]''), (''Accept'', ''*/*''), (''X-API-Key'', ''[FILTERED]'')]
   \<and> responseHeaders (last (logs (logResponse reference 1000 example_response
        (example_logged ''https://api.example.com/foo'') ([] :: regex Rule list) empty_logger)))
     = Some [(''Set-Cookie'', ''[FILTERED]''), (''Content-Type'', ''text/html'')]
   \<and> requestHeaders (last (logs (logRequest reference 1000
      (example_logged ''http://api.example.com/foo'') ([] :: regex Rule list) empty_logger)))
     = [(''Authorization'', ''secret''), (''Accept'', ''*/*''), (''X-API-Key'', ''k1'')]"
proof -
  have d1: "distinct (map fst (req_headers (example_logged u)))" for u
    by (simp add: example_logged_def)
  have d2: "distinct (map fst (res_headers example_response))"
    by (simp add: example_response_def)
  have p1: "\<forall>k \<in> fst ` set (req_headers (example_logged u)).
      \<not> inherited_setter reference KObject k" for u
    by (simp add: example_logged_def reference_def)
  have p2: "\<forall>k \<in> fst ` set (res_headers example_response).
      \<not> inherited_setter reference KObject k"
    by (simp add: example_response_def reference_def)
  have o1: "entries_order (map fst (req_headers (example_logged u)))" for u
    by code_simp
  have o2: "entries_order (map fst (res_headers example_response))"
    by code_simp
  have none: "find_index (awaits_response (example_logged u)) (logs empty_logger) = None" for u
    by (simp add: empty_logger_def)
  have r1: "redacted (req_url (example_logged ''https://api.example.com/foo''))
      (req_headers (example_logged ''https://api.example.com/foo''))
      = [(''Authorization'', ''[FILTERED]''), (''Accept'', ''*/*''), (''X-API-Key'', ''[FILTERED]'')]"
    by code_simp
  have r2: "redacted (req_url (example_logged ''https://api.example.com/foo''))
      (res_headers example_response)
      = [(''Set-Cookie'', ''[FILTERED]''), (''Content-Type'', ''text/html'')]"
    by code_simp
  have r3: "redacted (req_url (example_logged ''http://api.example.com/foo''))
      (req_headers (example_logged ''http://api.example.com/foo''))
      = [(''Authorization'', ''secret''), (''Accept'', ''*/*''), (''X-API-Key'', ''k1'')]"
    by code_simp
  show ?thesis
    using redaction_of_plain_names [OF d1 [of "''https://api.example.com/foo''"] d2
        p1 [of "''https://api.example.com/foo''"] p2
        o1 [of "''https://api.example.com/foo''"] o2, where now = 1000
        and rules = "[] :: regex Rule list" and L = empty_logger]
      redaction_of_plain_names [OF d1 [of "''http://api.example.com/foo''"] d2
        p1 [of "''http://api.example.com/foo''"] p2
        o1 [of "''http://api.example.com/foo''"] o2, where now = 1000
        and rules = "[] :: regex Rule list" and L = empty_logger]
    unfolding none r1 r2 r3 by simp
qed

section \<open>getLogs\<close>

lemma getLogs_filter:
  assumes "compiles P f"
  shows "getLogs P (Some f) L = Inr (sort_key timestamp (filter (selected P f) (logs L)))"
proof -
  have pattern: "(if truthy (filter_urlPattern f)
         then (case RegExp_new P (or_empty (filter_urlPattern f)) of
                 Inl m \<Rightarrow> Inl m
               | Inr pat \<Rightarrow> Inr (filter (\<lambda>log. RegExp_test P pat (entry_url log)) (logs L)))
         else Inr (logs L))
      = Inr (filter (\<lambda>log. case filter_urlPattern f of
                 None \<Rightarrow> True
               | Some p \<Rightarrow> p = [] \<or> (case RegExp_new P p of
                                       Inl m \<Rightarrow> False
                                     | Inr pat \<Rightarrow> RegExp_test P pat (entry_url log))) (logs L))"
    using assms
    by (auto simp: compiles_def truthy_def or_empty_def split: option.splits sum.splits)
  show ?thesis
    unfolding getLogs_def option.case pattern sum.case
    by (cases "filter_method f"; cases "filter_statusCode f"; cases "hasModifications f";
        cases "dateRange f")
       (auto simp: selected_def truthy_def or_empty_def Let_def conj_commute conj_left_commute
             intro!: arg_cong [where f = "sort_key timestamp"] filter_cong)
qed

lemma sorted_same_mset:
  fixes xs ys :: "int list"
  assumes "mset xs = mset ys" "sorted xs" "sorted ys"
  shows "xs = ys"
  using assms properties_for_sort by metis

text \<open>
  C3, as stated, fails for a filter whose \<open>method\<close> is supplied as the empty string: the
  entry with method \<open>GET\<close> is returned though it does not satisfy the supplied predicate.
\<close>

theorem C3_empty_method_counterexample:
  "getLogs reference (Some (no_filter\<lparr>filter_method := Some ''''\<rparr>))
     \<lparr>logs = [example_entry ''https://a.example/'' ''GET'' 1000], logIdCounter = 1\<rparr>
     = Inr [example_entry ''https://a.example/'' ''GET'' 1000]
   \<and> \<not> satisfies_all_supplied reference (no_filter\<lparr>filter_method := Some ''''\<rparr>)
         (example_entry ''https://a.example/'' ''GET'' 1000)"
  by (simp add: getLogs_def no_filter_def example_entry_def truthy_def satisfies_all_supplied_def)

text \<open>
  C3, amended. For a filter whose \<open>urlPattern\<close>, when not empty, compiles, \<open>getLogs\<close>
  returns the entries that satisfy every supplied predicate (\<open>urlPattern\<close> as a regular
  expression tested on the URL, \<open>method\<close> and \<open>statusCode\<close> by equality,
  \<open>hasModifications\<close> true exactly for a non-empty list of modifications, \<open>dateRange\<close>
  inclusive at both ends), where an absent field, and a \<open>urlPattern\<close> or \<open>method\<close> that is
  the empty string, constrains nothing; without a filter it returns every entry. The
  result is sorted by timestamp, and logs that hold the same entries in another order
  give the same entries with the same sequence of timestamps.
\<close>

theorem C3_getLogs:
  assumes "compiles P f"
  shows "getLogs P (Some f) L = Inr (sort_key timestamp (filter (selected P f) (logs L)))
         \<and> getLogs P None L = Inr (sort_key timestamp (logs L))
         \<and> (\<forall>flt result. flt \<in> {None, Some f} \<and> getLogs P flt L = Inr result \<longrightarrow>
               sorted (map timestamp result)
               \<and> mset result = mset (filter (case flt of None \<Rightarrow> (\<lambda>log. True)
                                                | Some g \<Rightarrow> selected P g) (logs L)))
         \<and> (mset (logs L') = mset (logs L) \<longrightarrow>
              map_sum id (map timestamp) (getLogs P (Some f) L')
                = map_sum id (map timestamp) (getLogs P (Some f) L)
              \<and> map_sum id mset (getLogs P (Some f) L') = map_sum id mset (getLogs P (Some f) L))"
proof -
  have a: "getLogs P (Some f) L = Inr (sort_key timestamp (filter (selected P f) (logs L)))"
    using assms by (rule getLogs_filter)
  have a': "getLogs P (Some f) L' = Inr (sort_key timestamp (filter (selected P f) (logs L')))"
    using assms by (rule getLogs_filter)
  have b: "getLogs P None L = Inr (sort_key timestamp (logs L))"
    by (simp add: getLogs_def)
  have order: "map timestamp (sort_key timestamp (filter (selected P f) (logs L')))
      = map timestamp (sort_key timestamp (filter (selected P f) (logs L)))"
    if "mset (logs L') = mset (logs L)"
  proof (rule sorted_same_mset)
    have "mset (filter (selected P f) (logs L')) = mset (filter (selected P f) (logs L))"
      using that by (metis mset_filter)
    then show "mset (map timestamp (sort_key timestamp (filter (selected P f) (logs L'))))
        = mset (map timestamp (sort_key timestamp (filter (selected P f) (logs L))))"
      by (metis mset_map mset_sort)
  qed simp_all
  have same: "mset (sort_key timestamp (filter (selected P f) (logs L')))
      = mset (sort_key timestamp (filter (selected P f) (logs L)))"
    if "mset (logs L') = mset (logs L)"
    using that by (metis mset_filter mset_sort)
  have each: "sorted (map timestamp result)
      \<and> mset result = mset (filter (case flt of None \<Rightarrow> (\<lambda>log. True)
                                      | Some g \<Rightarrow> selected P g) (logs L))"
    if "flt \<in> {None, Some f}" "getLogs P flt L = Inr result" for flt result
    using that a b by auto
  have part3: "\<forall>flt result. flt \<in> {None, Some f} \<and> getLogs P flt L = Inr result \<longrightarrow>
               sorted (map timestamp result)
               \<and> mset result = mset (filter (case flt of None \<Rightarrow> (\<lambda>log. True)
                                                | Some g \<Rightarrow> selected P g) (logs L))"
    using each by blast
  have part4: "mset (logs L') = mset (logs L) \<longrightarrow>
              map_sum id (map timestamp) (getLogs P (Some f) L')
                = map_sum id (map timestamp) (getLogs P (Some f) L)
              \<and> map_sum id mset (getLogs P (Some f) L') = map_sum id mset (getLogs P (Some f) L)"
    unfolding a a' using order same by simp
  show ?thesis
    using a b part3 part4 by blast
qed

theorem C3_getLogs_witness:
  "getLogs reference (Some (no_filter\<lparr>filter_urlPattern := Some ''b.example'', dateRange := Some (500, 1000)\<rparr>))
     \<lparr>logs = [example_entry ''https://a.example/'' ''GET'' 1000,
              example_entry ''https://b.example/2'' ''GET'' 1000,
              example_entry ''https://b.example/0'' ''GET'' 400,
              example_entry ''https://b.example/1'' ''GET'' 500], logIdCounter = 4\<rparr>
     = Inr [example_entry ''https://b.example/1'' ''GET'' 500,
            example_entry ''https://b.example/2'' ''GET'' 1000]"
proof -
  let ?f = "no_filter\<lparr>filter_urlPattern := Some ''b.example'', dateRange := Some (500, 1000)\<rparr>"
  let ?L = "\<lparr>logs = [example_entry ''https://a.example/'' ''GET'' 1000,
              example_entry ''https://b.example/2'' ''GET'' 1000,
              example_entry ''https://b.example/0'' ''GET'' 400,
              example_entry ''https://b.example/1'' ''GET'' 500], logIdCounter = 4\<rparr>"
  have c: "compiles reference ?f" by code_simp
  have s: "sort_key timestamp (filter (selected reference ?f) (logs ?L))
      = [example_entry ''https://b.example/1'' ''GET'' 500,
         example_entry ''https://b.example/2'' ''GET'' 1000]"
    by code_simp
  show ?thesis
    using C3_getLogs [OF c, of ?L ?L] unfolding s by simp
qed

section \<open>applyRetentionPolicy\<close>

text \<open>
  C2. With the most recent entry inserted first, a limit of one entry keeps the older
  entry (the last inserted), where the specification keeps the most recent one: the
  entries are not sorted before \<open>slice\<close>. With a limit of zero every entry is kept
  (\<open>slice(-0)\<close> is the whole list), where the specification keeps none.
\<close>

theorem C2_keeps_last_inserted:
  "logs (applyRetentionPolicy reference 1000000000 7 1 two_entries)
     = [example_entry ''https://older.example/'' ''GET'' 900000000]
   \<and> retained_as_specified 1000000000 7 1 (logs two_entries)
     = [example_entry ''https://recent.example/'' ''GET'' 999999000]
   \<and> logs (applyRetentionPolicy reference 1000000000 7 0 two_entries) = logs two_entries
   \<and> retained_as_specified 1000000000 7 0 (logs two_entries) = []"
  by code_simp

text \<open>
  On logs that are in the order of their timestamps, with a limit of at least one
  entry, and when the days that \<open>setDate\<close> goes back are days of 86400000 ms (the local
  clock is not changed in between and the date stays valid), the policy keeps what the
  specification asks for.
\<close>

lemma sorted_filter_key: "sorted (map f xs) \<Longrightarrow> sorted (map f (filter p xs))"
  by (induction xs) auto

theorem retention_on_chronological_logs:
  assumes "sorted (map timestamp (logs L))" and "1 \<le> maxEntries"
    and "Date_days_back P now retentionDays = Some (now - retentionDays * 86400000)"
  shows "logs (applyRetentionPolicy P now retentionDays maxEntries L)
           = retained_as_specified now retentionDays maxEntries (logs L)"
proof -
  let ?kept = "filter (not_older (cutoffDate P now retentionDays)) (logs L)"
  have same: "filter (\<lambda>log. \<not> timestamp log < now - retentionDays * 86400000) (logs L) = ?kept"
    by (simp add: cutoffDate_def assms(3) not_older_def [abs_def] not_less)
  have "sorted (map timestamp ?kept)" using assms(1) by (rule sorted_filter_key)
  then have ordered: "sort_key timestamp ?kept = ?kept" by (rule sort_key_id_if_sorted)
  have cut: "slice (- maxEntries) ?kept = drop (length ?kept - nat maxEntries) ?kept"
    if "int (length ?kept) > maxEntries"
    using that assms(2) by (simp add: slice_def Let_def max_def nat_diff_distrib' nat_add_distrib)
  show ?thesis
    unfolding retained_as_specified_def same Let_def ordered
    using cut by (simp add: applyRetentionPolicy_def Let_def)
qed

theorem retention_on_chronological_logs_witness:
  "logs (applyRetentionPolicy reference 1000000000 7 1
      \<lparr>logs = [example_entry ''https://oldest.example/'' ''GET'' 100000000,
               example_entry ''https://older.example/'' ''GET'' 900000000,
               example_entry ''https://recent.example/'' ''GET'' 999999000],
       logIdCounter = 3\<rparr>)
     = [example_entry ''https://recent.example/'' ''GET'' 999999000]"
proof -
  let ?L = "\<lparr>logs = [example_entry ''https://oldest.example/'' ''GET'' 100000000,
               example_entry ''https://older.example/'' ''GET'' 900000000,
               example_entry ''https://recent.example/'' ''GET'' 999999000],
       logIdCounter = 3\<rparr>"
  have ordered: "sorted (map timestamp (logs ?L))"
    by (simp add: example_entry_def)
  have limit: "(1::int) \<le> 1" by simp
  have days: "Date_days_back reference 1000000000 7 = Some (1000000000 - 7 * 86400000)"
    by (simp add: reference_def reference_days_back_def)
  have specified: "retained_as_specified 1000000000 7 1 (logs ?L)
      = [example_entry ''https://recent.example/'' ''GET'' 999999000]"
    by code_simp
  show ?thesis
    using retention_on_chronological_logs [OF ordered limit days]
    unfolding specified by simp
qed

end
